theory Spec2Isabelle
  imports Complex_Main "HOL-Library.Sublist"
begin

section \<open>JavaScript string primitives\<close>

text \<open>
  Source text, indicators and messages are JavaScript strings.  They are modelled as
  \<^typ>\<open>string\<close>, one \<^typ>\<open>char\<close> per UTF-16 code unit below 256.  The only text
  of the program outside that range is the mark at the head of a recommendation message.
  The source file holds each mark as a run of three to five code units, of which those
  above 255 are U+0161, U+0178, U+201C, U+201D, U+2039, U+0153 and U+2026; such a code
  unit is written as the byte Windows-1252 has for it (9A, 9F, 93, 94, 8B, 9C and 85), a
  character that no other text of the program holds.
\<close>

definition startsWith :: "string \<Rightarrow> string \<Rightarrow> bool" where
  "startsWith s p = (take (length p) s = p)"

text \<open>\<^verbatim>\<open>s.includes(p)\<close>: \<open>p\<close> occurs in \<open>s\<close> as a contiguous run.\<close>

fun str_includes :: "string \<Rightarrow> string \<Rightarrow> bool" where
  "str_includes [] p = (p = [])"
| "str_includes (c # cs) p = (startsWith (c # cs) p \<or> str_includes cs p)"

definition toLowerChar :: "char \<Rightarrow> char" where
  "toLowerChar c =
     (let n = (of_char c :: nat)
      in if (65 \<le> n \<and> n \<le> 90) \<or> (192 \<le> n \<and> n \<le> 222 \<and> n \<noteq> 215)
         then char_of (n + 32) else c)"

definition toLowerCase :: "string \<Rightarrow> string" where
  "toLowerCase s = map toLowerChar s"

definition substring0 :: "string \<Rightarrow> nat \<Rightarrow> string" where
  \<comment> \<open>\<^verbatim>\<open>s.substring(0, n)\<close> for a count \<open>n\<close>\<close>
  "substring0 s n = take n s"

fun join :: "string \<Rightarrow> string list \<Rightarrow> string" where
  "join sep [] = []"
| "join sep [x] = x"
| "join sep (x # y # ys) = x @ sep @ join sep (y # ys)"

definition digit_char :: "nat \<Rightarrow> char" where
  "digit_char d = char_of (48 + d)"

fun show_nat :: "nat \<Rightarrow> string" where
  "show_nat n = (if n < 10 then [digit_char n] else show_nat (n div 10) @ [digit_char (n mod 10)])"

declare show_nat.simps [simp del]

definition show_int :: "int \<Rightarrow> string" where
  "show_int i = (if i < 0 then CHR ''-'' # show_nat (nat (- i)) else show_nat (nat i))"

text \<open>Insertion into a JavaScript \<^verbatim>\<open>Set\<close>, read back in insertion order: the first
  occurrence of every value, in order.\<close>

fun uniq_from :: "'a list \<Rightarrow> 'a list \<Rightarrow> 'a list" where
  "uniq_from seen [] = []"
| "uniq_from seen (x # xs) =
     (if x \<in> set seen then uniq_from seen xs else x # uniq_from (x # seen) xs)"

definition uniq :: "'a list \<Rightarrow> 'a list" where
  "uniq xs = uniq_from [] xs"

section \<open>JavaScript numbers\<close>

text \<open>
  A number of the program is a double.  A finite double is a rational, and the model
  computes with rationals: where the exact result of an operation need not be a double,
  \<open>fl\<close> rounds it to the nearest one, a tie going to the even significand.  Beyond the
  largest double the program has the two infinities; in the model a rational from
  \<open>2 ^ 1024\<close> on, in magnitude, stands for the infinity of its sign.  The two zeros are not
  told apart, and no operation of the program yields \<^verbatim>\<open>NaN\<close> from numbers: it divides
  only by a positive count.
\<close>

definition pow2 :: "int \<Rightarrow> rat" where
  "pow2 e = (if 0 \<le> e then 2 ^ nat e else 1 / 2 ^ nat (- e))"

function bitLength :: "int \<Rightarrow> int" where
  "bitLength n = (if n \<le> 0 then 0 else 1 + bitLength (n div 2))"
  by pat_completeness auto
termination by (relation "measure nat") auto

declare bitLength.simps [simp del]

text \<open>The exponent \<open>e\<close> with \<open>2 ^ e \<le> \<bar>x\<bar> < 2 ^ (e + 1)\<close>, for \<open>x\<close> other than 0.\<close>

definition binade :: "rat \<Rightarrow> int" where
  "binade x =
     (let (p, q) = quotient_of \<bar>x\<bar>;
          d = bitLength p - bitLength q
      in if pow2 d \<le> \<bar>x\<bar> then d else d - 1)"

definition roundHalfEven :: "rat \<Rightarrow> int" where
  "roundHalfEven x =
     (let f = \<lfloor>x\<rfloor>; r = x - of_int f
      in if r < 1 / 2 then f else if 1 / 2 < r then f + 1 else if even f then f else f + 1)"

definition isInfinity :: "rat \<Rightarrow> bool" where
  "isInfinity x = (x \<noteq> 0 \<and> 1024 \<le> binade x)"

text \<open>Doubles have 53 significant bits; below \<open>2 ^ - 1022\<close> they are spaced \<open>2 ^ - 1074\<close>
  apart.\<close>

definition fl :: "rat \<Rightarrow> rat" where
  "fl x =
     (if x = 0 then 0
      else let e = max (binade x) (- 1022);
               ulp = pow2 (e - 52);
               y = of_int (roundHalfEven (x / ulp)) * ulp
           in if isInfinity y then (if x < 0 then - pow2 1024 else pow2 1024) else y)"

text \<open>\<^verbatim>\<open>x / n\<close> for a positive count \<open>n\<close>; an infinity stays one.\<close>

definition js_div :: "rat \<Rightarrow> nat \<Rightarrow> rat" where
  "js_div x n = (if isInfinity x then x else fl (x / of_nat n))"

definition Math_ceil :: "rat \<Rightarrow> rat" where
  "Math_ceil x = of_int \<lceil>x\<rceil>"

definition Math_round :: "rat \<Rightarrow> rat" where
  \<comment> \<open>the nearest integer, a half going upwards\<close>
  "Math_round x = of_int \<lfloor>x + 1 / 2\<rfloor>"

text \<open>
  \<^verbatim>\<open>String(x)\<close> for a number without fraction.  Up to \<open>2 ^ 53\<close> every integer is a double
  and is written out in full.  Above, the digits are the shortest decimal \<open>s\<close> (of \<open>k\<close>
  digits, standing for \<open>s * 10 ^ (n - k)\<close>) that denotes the double, the nearer one where
  two of a length do; they are followed by zeros up to 21 digits, and written with an
  exponent beyond.
\<close>

function decimalLength :: "int \<Rightarrow> nat" where
  "decimalLength n = (if n < 10 then 1 else Suc (decimalLength (n div 10)))"
  by pat_completeness auto
termination by (relation "measure nat") auto

declare decimalLength.simps [simp del]

function show_digits :: "int \<Rightarrow> string" where
  "show_digits n = (if n < 10 then [digit_char (nat n)]
                    else show_digits (n div 10) @ [digit_char (nat (n mod 10))])"
  by pat_completeness auto
termination by (relation "measure nat") auto

declare show_digits.simps [simp del]

definition digitsWith :: "int \<Rightarrow> nat \<Rightarrow> (int \<times> nat) option" where
  "digitsWith x k =
     (let n = decimalLength x;
          g = 10 ^ (n - k);
          lo = x div g;
          hi = lo + 1;
          okLo = (fl (of_int (lo * g)) = of_int x);
          okHi = (fl (of_int (hi * g)) = of_int x);
          up = (if hi = 10 ^ k then (10 ^ (k - 1), Suc n) else (hi, n))
      in if okLo \<and> okHi
         then (if x - lo * g < hi * g - x then Some (lo, n)
               else if hi * g - x < x - lo * g then Some up
               else if even lo then Some (lo, n) else Some up)
         else if okLo then Some (lo, n)
         else if okHi then Some up
         else None)"

fun shortestFrom :: "int \<Rightarrow> nat list \<Rightarrow> int \<times> nat" where
  "shortestFrom x [] = (x, decimalLength x)"
| "shortestFrom x (k # ks) =
     (case digitsWith x k of Some sn \<Rightarrow> sn | None \<Rightarrow> shortestFrom x ks)"

definition shortest :: "int \<Rightarrow> int \<times> nat" where
  "shortest x = shortestFrom x [1 ..< Suc (min (decimalLength x) 17)]"

definition positiveToString :: "int \<Rightarrow> string" where
  "positiveToString x =
     (if x \<le> 2 ^ 53 then show_digits x
      else let (s, n) = shortest x; ds = show_digits s; k = length ds
           in if n \<le> 21 then ds @ replicate (n - k) (CHR ''0'')
              else (if k = 1 then ds else take 1 ds @ ''.'' @ drop 1 ds)
                   @ ''e+'' @ show_digits (int n - 1))"

definition integralToString :: "rat \<Rightarrow> string" where
  "integralToString x =
     (if isInfinity x then (if x < 0 then ''-Infinity'' else ''Infinity'')
      else if x < 0 then CHR ''-'' # positiveToString (- \<lfloor>x\<rfloor>)
      else positiveToString \<lfloor>x\<rfloor>)"

text \<open>
  \<^verbatim>\<open>xs.slice(0, end)\<close>.  The end is cut to an integer towards zero; a negative end counts
  from the end of the array, and the result is empty when that lies before its start.
\<close>

definition toIntegerOrInfinity :: "rat \<Rightarrow> int" where
  "toIntegerOrInfinity x = (if 0 \<le> x then \<lfloor>x\<rfloor> else \<lceil>x\<rceil>)"

definition slice0 :: "'a list \<Rightarrow> rat \<Rightarrow> 'a list" where
  "slice0 xs stop =
     (let len = int (length xs);
          relativeEnd = toIntegerOrInfinity stop;
          final = (if relativeEnd < 0 then max (len + relativeEnd) 0 else min relativeEnd len)
      in take (nat final) xs)"

section \<open>Regular expressions\<close>

text \<open>
  The program searches text with JavaScript regular expressions.  Each literal of the
  source is transcribed as a term of \<open>rx\<close>, and \<open>rx_ms\<close> is the backtracking matcher of
  the language: it returns every way the expression matches at the current position,
  in the order in which backtracking would try them, so the head of the list is the
  match JavaScript reports.  A state is the character before the position (for \<^verbatim>\<open>\b\<close>
  and \<^verbatim>\<open>^\<close>), the text still ahead, and the capture groups set so far.
\<close>

datatype cls =
    CAny               \<comment> \<open>\<^verbatim>\<open>.\<close> without the \<^verbatim>\<open>s\<close> flag: any character but a line terminator\<close>
  | CSpace             \<comment> \<open>\<^verbatim>\<open>\s\<close>\<close>
  | CWord              \<comment> \<open>\<^verbatim>\<open>\w\<close>\<close>
  | CDigit             \<comment> \<open>\<^verbatim>\<open>\d\<close>\<close>
  | COneOf string      \<comment> \<open>\<^verbatim>\<open>[abc]\<close>\<close>
  | CNoneOf string     \<comment> \<open>\<^verbatim>\<open>[^abc]\<close>\<close>

datatype rx =
    Lit string         \<comment> \<open>a run of literal characters\<close>
  | Chr cls
  | Seq rx rx
  | Alt rx rx
  | Star rx            \<comment> \<open>greedy \<^verbatim>\<open>*\<close>\<close>
  | Opt rx             \<comment> \<open>greedy \<^verbatim>\<open>?\<close>\<close>
  | Grp nat rx         \<comment> \<open>capture group number \<open>n\<close>\<close>
  | WordB              \<comment> \<open>\<^verbatim>\<open>\b\<close>\<close>
  | Bol                \<comment> \<open>\<^verbatim>\<open>^\<close> under the \<^verbatim>\<open>m\<close> flag\<close>

text \<open>\<^verbatim>\<open>r+\<close> is \<^verbatim>\<open>rr*\<close>.\<close>

definition Plus :: "rx \<Rightarrow> rx" where
  "Plus r = Seq r (Star r)"

fun seqs :: "rx list \<Rightarrow> rx" where
  "seqs [] = Lit []"
| "seqs [r] = r"
| "seqs (r # rs) = Seq r (seqs rs)"

fun alts :: "rx list \<Rightarrow> rx" where
  "alts [] = Lit []"
| "alts [r] = r"
| "alts (r # rs) = Alt r (alts rs)"

definition is_space :: "char \<Rightarrow> bool" where
  "is_space c = (let n = (of_char c :: nat) in (9 \<le> n \<and> n \<le> 13) \<or> n = 32 \<or> n = 160)"

definition is_digit :: "char \<Rightarrow> bool" where
  "is_digit c = (let n = (of_char c :: nat) in 48 \<le> n \<and> n \<le> 57)"

definition is_word :: "char \<Rightarrow> bool" where
  "is_word c = (let n = (of_char c :: nat)
                in (48 \<le> n \<and> n \<le> 57) \<or> (65 \<le> n \<and> n \<le> 90) \<or> n = 95 \<or> (97 \<le> n \<and> n \<le> 122))"

definition is_line_terminator :: "char \<Rightarrow> bool" where
  "is_line_terminator c = (let n = (of_char c :: nat) in n = 10 \<or> n = 13)"

text \<open>Under the \<^verbatim>\<open>i\<close> flag two characters are equal when their canonical forms are;
  every literal of the program's expressions is ASCII, and an ASCII letter is then
  matched by exactly its two cases.\<close>

definition asciiLower :: "char \<Rightarrow> char" where
  "asciiLower c = (let n = (of_char c :: nat) in if 65 \<le> n \<and> n \<le> 90 then char_of (n + 32) else c)"

definition chr_eq :: "bool \<Rightarrow> char \<Rightarrow> char \<Rightarrow> bool" where
  "chr_eq icase a b = (if icase then asciiLower a = asciiLower b else a = b)"

fun cls_ok :: "bool \<Rightarrow> cls \<Rightarrow> char \<Rightarrow> bool" where
  "cls_ok icase CAny c = (\<not> is_line_terminator c)"
| "cls_ok icase CSpace c = is_space c"
| "cls_ok icase CWord c = is_word c"
| "cls_ok icase CDigit c = is_digit c"
| "cls_ok icase (COneOf cs) c = list_ex (chr_eq icase c) cs"
| "cls_ok icase (CNoneOf cs) c = (\<not> list_ex (chr_eq icase c) cs)"

record mstate =
  ms_prev :: "char option"
  ms_rest :: string
  ms_caps :: "(nat \<times> string) list"

text \<open>Consuming a literal run, character by character.\<close>

fun lit_ms :: "bool \<Rightarrow> string \<Rightarrow> mstate \<Rightarrow> mstate list" where
  "lit_ms icase [] st = [st]"
| "lit_ms icase (c # cs) st =
     (case ms_rest st of
        [] \<Rightarrow> []
      | x # xs \<Rightarrow> if chr_eq icase c x
                 then lit_ms icase cs (st\<lparr>ms_prev := Some x, ms_rest := xs\<rparr>) else [])"

definition at_word_boundary :: "mstate \<Rightarrow> bool" where
  "at_word_boundary st =
     ((case ms_prev st of None \<Rightarrow> False | Some c \<Rightarrow> is_word c)
      \<noteq> (case ms_rest st of [] \<Rightarrow> False | c # _ \<Rightarrow> is_word c))"

definition at_line_start :: "mstate \<Rightarrow> bool" where
  "at_line_start st = (case ms_prev st of None \<Rightarrow> True | Some c \<Rightarrow> is_line_terminator c)"

definition set_cap :: "nat \<Rightarrow> mstate \<Rightarrow> mstate \<Rightarrow> mstate" where
  \<comment> \<open>group \<open>n\<close> captured the text between the states \<open>st\<close> and \<open>st'\<close>\<close>
  "set_cap n st st' =
     st'\<lparr>ms_caps := (n, take (length (ms_rest st) - length (ms_rest st')) (ms_rest st))
                       # filter (\<lambda>kv. fst kv \<noteq> n) (ms_caps st')\<rparr>"

function rx_ms :: "bool \<Rightarrow> rx \<Rightarrow> mstate \<Rightarrow> mstate list" where
  "rx_ms icase (Lit cs) st = lit_ms icase cs st"
| "rx_ms icase (Chr k) st =
     (case ms_rest st of
        [] \<Rightarrow> []
      | x # xs \<Rightarrow> if cls_ok icase k x then [st\<lparr>ms_prev := Some x, ms_rest := xs\<rparr>] else [])"
| "rx_ms icase (Seq a b) st = concat (map (rx_ms icase b) (rx_ms icase a st))"
| "rx_ms icase (Alt a b) st = rx_ms icase a st @ rx_ms icase b st"
| "rx_ms icase (Star a) st =
     concat (map (\<lambda>st'. if length (ms_rest st') < length (ms_rest st)
                         then rx_ms icase (Star a) st' else [])
                 (rx_ms icase a st)) @ [st]"
| "rx_ms icase (Opt a) st = rx_ms icase a st @ [st]"
| "rx_ms icase (Grp n a) st = map (set_cap n st) (rx_ms icase a st)"
| "rx_ms icase WordB st = (if at_word_boundary st then [st] else [])"
| "rx_ms icase Bol st = (if at_line_start st then [st] else [])"
  by pat_completeness auto
termination
  by (relation "inv_image (less_than <*lex*> less_than) (\<lambda>(i, r, st). (size r, length (ms_rest st)))")
     auto

text \<open>
  A match as JavaScript reports it: \<^verbatim>\<open>m.index\<close>, \<^verbatim>\<open>m[0]\<close> and the capture groups
  (\<^verbatim>\<open>m[n]\<close> is \<^verbatim>\<open>undefined\<close> when group \<open>n\<close> took no part in the match).
\<close>

record rmatch =
  m_index :: nat
  m_text :: string
  m_caps :: "(nat \<times> string) list"

definition m_group :: "rmatch \<Rightarrow> nat \<Rightarrow> string option" where
  "m_group m n = map_of (m_caps m) n"

text \<open>The match at one position, if there is one: the first alternative of the matcher.\<close>

definition rx_at :: "bool \<Rightarrow> rx \<Rightarrow> char option \<Rightarrow> nat \<Rightarrow> string \<Rightarrow> rmatch option" where
  "rx_at icase r prev i s =
     (case rx_ms icase r \<lparr>ms_prev = prev, ms_rest = s, ms_caps = []\<rparr> of
        [] \<Rightarrow> None
      | st # _ \<Rightarrow> Some \<lparr>m_index = i, m_text = take (length s - length (ms_rest st)) s,
                         m_caps = ms_caps st\<rparr>)"

text \<open>
  \<^verbatim>\<open>re.exec(s)\<close> without the \<^verbatim>\<open>g\<close> flag, and \<^verbatim>\<open>s.match(re)\<close> likewise: the leftmost
  position with a match.  \<open>prev\<close> is the character before the text and \<open>i\<close> its index.
\<close>

fun rx_search :: "bool \<Rightarrow> rx \<Rightarrow> char option \<Rightarrow> nat \<Rightarrow> string \<Rightarrow> rmatch option" where
  "rx_search icase r prev i [] = rx_at icase r prev i []"
| "rx_search icase r prev i (c # cs) =
     (case rx_at icase r prev i (c # cs) of
        Some m \<Rightarrow> Some m
      | None \<Rightarrow> rx_search icase r (Some c) (Suc i) cs)"

definition rx_exec :: "bool \<Rightarrow> rx \<Rightarrow> string \<Rightarrow> rmatch option" where
  "rx_exec icase r s = rx_search icase r None 0 s"

definition rx_test :: "bool \<Rightarrow> rx \<Rightarrow> string \<Rightarrow> bool" where
  "rx_test icase r s = (rx_exec icase r s \<noteq> None)"

text \<open>
  The \<^verbatim>\<open>g\<close> flag: every match, left to right, each search resuming where the last match
  ended (one character further after an empty match).  \<open>skip\<close> counts the characters of
  the last match that are still to be passed over.
\<close>

fun rx_scan :: "bool \<Rightarrow> rx \<Rightarrow> char option \<Rightarrow> nat \<Rightarrow> nat \<Rightarrow> string \<Rightarrow> rmatch list" where
  "rx_scan icase r prev i skip [] =
     (if skip = 0 then (case rx_at icase r prev i [] of None \<Rightarrow> [] | Some m \<Rightarrow> [m]) else [])"
| "rx_scan icase r prev i skip (c # cs) =
     (if skip = 0
      then (case rx_at icase r prev i (c # cs) of
              None \<Rightarrow> rx_scan icase r (Some c) (Suc i) 0 cs
            | Some m \<Rightarrow> m # rx_scan icase r (Some c) (Suc i) (length (m_text m) - 1) cs)
      else rx_scan icase r (Some c) (Suc i) (skip - 1) cs)"

definition rx_execAll :: "bool \<Rightarrow> rx \<Rightarrow> string \<Rightarrow> rmatch list" where
  "rx_execAll icase r s = rx_scan icase r None 0 0 s"

definition rx_matchAll :: "bool \<Rightarrow> rx \<Rightarrow> string \<Rightarrow> string list" where
  \<comment> \<open>\<^verbatim>\<open>s.match(/r/g) || []\<close>\<close>
  "rx_matchAll icase r s = map m_text (rx_execAll icase r s)"

section \<open>Solidity text utilities (\<^verbatim>\<open>utils/solidity.utils.ts\<close>)\<close>

definition trim :: "string \<Rightarrow> string" where
  "trim s = rev (dropWhile is_space (rev (dropWhile is_space s)))"

text \<open>\<^verbatim>\<open>s.replace(p, "")\<close> with a string pattern: the first occurrence of \<open>p\<close> is removed.\<close>

fun remove_first :: "string \<Rightarrow> string \<Rightarrow> string" where
  "remove_first p [] = []"
| "remove_first p (c # cs) =
     (if startsWith (c # cs) p then drop (length p) (c # cs) else c # remove_first p cs)"

record SolidityMetadata =
  pragmas :: "string list"
  import_stmts :: "string list"
  contracts :: "string list"
  interfaces :: "string list"
  libraries :: "string list"

definition rx_space_plus :: rx where
  "rx_space_plus = Plus (Chr CSpace)"

definition rx_word_plus :: rx where
  "rx_word_plus = Plus (Chr CWord)"

definition rx_pragma :: rx where
  \<comment> \<open>\<^verbatim>\<open>/pragma\s+solidity\s+[^;]+;/\<close>\<close>
  "rx_pragma = seqs [Lit ''pragma'', rx_space_plus, Lit ''solidity'', rx_space_plus,
                     Plus (Chr (CNoneOf '';'')), Lit '';'']"

definition rx_import :: rx where
  \<comment> \<open>\<^verbatim>\<open>/import\s+[^;]+;/\<close>\<close>
  "rx_import = seqs [Lit ''import'', rx_space_plus, Plus (Chr (CNoneOf '';'')), Lit '';'']"

definition rx_named :: "string \<Rightarrow> rx" where
  \<comment> \<open>\<^verbatim>\<open>/contract\s+(\w+)/\<close>, and the same for \<^verbatim>\<open>interface\<close> and \<^verbatim>\<open>library\<close>\<close>
  "rx_named kw = seqs [Lit kw, rx_space_plus, Grp 1 rx_word_plus]"

definition extractMetadata :: "string \<Rightarrow> SolidityMetadata" where
  "extractMetadata src =
     \<lparr>pragmas = map trim (rx_matchAll False rx_pragma src),
      import_stmts = map trim (rx_matchAll False rx_import src),
      contracts = map (remove_first ''contract '') (rx_matchAll False (rx_named ''contract'') src),
      interfaces = map (remove_first ''interface '') (rx_matchAll False (rx_named ''interface'') src),
      libraries = map (remove_first ''library '') (rx_matchAll False (rx_named ''library'') src)\<rparr>"

record SolidityFunction =
  fn_name :: string
  fn_visibility :: string
  fn_mutability :: string
  fn_modifiers :: "string list"
  fn_lineNumber :: nat

definition rx_visibility :: rx where
  "rx_visibility = alts [Lit ''public'', Lit ''external'', Lit ''internal'', Lit ''private'']"

definition rx_mutability :: rx where
  "rx_mutability = alts [Lit ''view'', Lit ''pure'', Lit ''payable'']"

definition rx_function_params :: rx where
  \<comment> \<open>\<^verbatim>\<open>function\s+(\w+)\s*\([^)]*\<close>\<close>
  "rx_function_params =
     seqs [Lit ''function'', rx_space_plus, Grp 1 rx_word_plus, Star (Chr CSpace),
           Lit ''('', Star (Chr (CNoneOf '')''))]"

definition rx_function_head :: rx where
  \<comment> \<open>\<^verbatim>\<open>function\s+(\w+)\s*\([^)]*\)\<close>\<close>
  "rx_function_head = Seq rx_function_params (Lit '')'')"

definition rx_function_tail :: rx where
  \<comment> \<open>\<^verbatim>\<open>\s*(public|external|internal|private)?\s*(view|pure|payable)?\<close>\<close>
  "rx_function_tail =
     seqs [Star (Chr CSpace), Opt (Grp 2 rx_visibility),
           Star (Chr CSpace), Opt (Grp 3 rx_mutability)]"

definition rx_function :: rx where
  \<comment> \<open>\<^verbatim>\<open>/function\s+(\w+)\s*\([^)]*\)\s*(public|external|internal|private)?\s*(view|pure|payable)?/g\<close>\<close>
  "rx_function = Seq rx_function_head rx_function_tail"

definition newline :: char where
  "newline = CHR 0x0A"

definition lineOf :: "string \<Rightarrow> nat \<Rightarrow> nat" where
  \<comment> \<open>\<^verbatim>\<open>(src.substring(0, index).match(/\n/g) || []).length + 1\<close>\<close>
  "lineOf src idx = length (filter (\<lambda>c. c = newline) (take idx src)) + 1"

definition orElse :: "string option \<Rightarrow> string \<Rightarrow> string" where
  \<comment> \<open>\<^verbatim>\<open>m[n] || d\<close>: an absent group and the empty string both give the default\<close>
  "orElse g d = (case g of None \<Rightarrow> d | Some v \<Rightarrow> if v = [] then d else v)"

definition functionOf :: "string \<Rightarrow> rmatch \<Rightarrow> SolidityFunction" where
  "functionOf src m =
     \<lparr>fn_name = (case m_group m 1 of None \<Rightarrow> [] | Some v \<Rightarrow> v),
      fn_visibility = orElse (m_group m 2) ''internal'',
      fn_mutability = orElse (m_group m 3) ''nonpayable'',
      fn_modifiers = [],
      fn_lineNumber = lineOf src (m_index m)\<rparr>"

definition functionMatches :: "string \<Rightarrow> rmatch list" where
  \<comment> \<open>the matches the \<^verbatim>\<open>while ((m = re.exec(src)))\<close> loop of \<^verbatim>\<open>extractFunctions\<close> visits\<close>
  "functionMatches src = rx_execAll False rx_function src"

definition extractFunctions :: "string \<Rightarrow> SolidityFunction list" where
  "extractFunctions src = map (functionOf src) (functionMatches src)"

subsection \<open>The heuristic indicator scan\<close>

text \<open>The expressions of \<^verbatim>\<open>checkVulnerabilityIndicators\<close>, in the order of the source.\<close>

definition any_star :: rx where
  \<comment> \<open>\<^verbatim>\<open>.*\<close>\<close>
  "any_star = Star (Chr CAny)"

definition space_star :: rx where
  \<comment> \<open>\<^verbatim>\<open>\s*\<close>\<close>
  "space_star = Star (Chr CSpace)"

definition not_star :: "string \<Rightarrow> rx" where
  \<comment> \<open>\<^verbatim>\<open>[^c]*\<close>\<close>
  "not_star cs = Star (Chr (CNoneOf cs))"

definition rx_call_value :: rx where
  \<comment> \<open>\<^verbatim>\<open>/\.call\{[^}]*value:/\<close>\<close>
  "rx_call_value = seqs [Lit ''.call{'', not_star ''}'', Lit ''value:'']"

definition rx_privileged :: rx where
  \<comment> \<open>\<^verbatim>\<open>/function\s+\w+.*external.*\{[^}]*\b(transfer|withdraw|withdrawAll|setOwner|changeOwner|destroy|kill)\b/i\<close>\<close>
  "rx_privileged =
     seqs [Lit ''function'', rx_space_plus, rx_word_plus, any_star, Lit ''external'', any_star,
           Lit ''{'', not_star ''}'', WordB,
           Grp 1 (alts [Lit ''transfer'', Lit ''withdraw'', Lit ''withdrawAll'', Lit ''setOwner'',
                        Lit ''changeOwner'', Lit ''destroy'', Lit ''kill'']),
           WordB]"

definition rx_require_sender :: rx where
  \<comment> \<open>\<^verbatim>\<open>/require\(.*==.*msg\.sender/i\<close>\<close>
  "rx_require_sender = seqs [Lit ''require('', any_star, Lit ''=='', any_star, Lit ''msg.sender'']"

definition rx_arith :: rx where
  \<comment> \<open>\<^verbatim>\<open>/\+\+|--|\+\s*[^=]|-\s*[^=]/\<close>\<close>
  "rx_arith =
     alts [Lit ''++'', Lit ''--'',
           seqs [Lit ''+'', space_star, Chr (CNoneOf ''='')],
           seqs [Lit ''-'', space_star, Chr (CNoneOf ''='')]]"

definition rx_pragma_08 :: rx where
  \<comment> \<open>\<^verbatim>\<open>/pragma\s+solidity\s+[>=]0\.8/\<close>\<close>
  "rx_pragma_08 =
     seqs [Lit ''pragma'', rx_space_plus, Lit ''solidity'', rx_space_plus,
           Chr (COneOf ''>=''), Lit ''0.8'']"

definition rx_ext_call :: rx where
  \<comment> \<open>\<^verbatim>\<open>/\.call\(|\.send\(|\.transfer\(/\<close>\<close>
  "rx_ext_call = alts [Lit ''.call('', Lit ''.send('', Lit ''.transfer('']"

definition rx_require_success :: rx where
  \<comment> \<open>\<^verbatim>\<open>/require\(.*success/\<close>\<close>
  "rx_require_success = seqs [Lit ''require('', any_star, Lit ''success'']"

definition rx_checked_success :: rx where
  \<comment> \<open>\<^verbatim>\<open>/require\(.*success|if\s*\(.*success/\<close>\<close>
  "rx_checked_success =
     Alt rx_require_success (seqs [Lit ''if'', space_star, Lit ''('', any_star, Lit ''success''])"

definition rx_block_time :: rx where
  \<comment> \<open>\<^verbatim>\<open>/block\.timestamp|block\.number|now\b/\<close>\<close>
  "rx_block_time = alts [Lit ''block.timestamp'', Lit ''block.number'', Seq (Lit ''now'') WordB]"

definition rx_require_block :: rx where
  \<comment> \<open>\<^verbatim>\<open>/require\(.*block\.(timestamp|number)/\<close>\<close>
  "rx_require_block =
     seqs [Lit ''require('', any_star, Lit ''block.'', Grp 1 (Alt (Lit ''timestamp'') (Lit ''number''))]"

definition rx_loop_call :: rx where
  \<comment> \<open>\<^verbatim>\<open>/for\s*\([^)]*\)\s*\{[^}]*\.call\(/\<close>\<close>
  "rx_loop_call =
     seqs [Lit ''for'', space_star, Lit ''('', not_star '')'', Lit '')'', space_star,
           Lit ''{'', not_star ''}'', Lit ''.call('']"

definition rx_function_open :: rx where
  \<comment> \<open>\<^verbatim>\<open>/function\s+(\w+).*\{/g\<close>\<close>
  "rx_function_open = seqs [Lit ''function'', rx_space_plus, Grp 1 rx_word_plus, any_star, Lit ''{'']"

definition rx_event :: rx where
  \<comment> \<open>\<^verbatim>\<open>/event\s+\w+/g\<close>\<close>
  "rx_event = seqs [Lit ''event'', rx_space_plus, rx_word_plus]"

definition rx_storage_ptr :: rx where
  \<comment> \<open>\<^verbatim>\<open>/storage\s+\w+\s+\w+;/\<close>\<close>
  "rx_storage_ptr =
     seqs [Lit ''storage'', rx_space_plus, rx_word_plus, rx_space_plus, rx_word_plus, Lit '';'']"

definition rx_assignment :: rx where
  \<comment> \<open>\<^verbatim>\<open>/=\s*[^;]+;/\<close>\<close>
  "rx_assignment = seqs [Lit ''='', space_star, Plus (Chr (CNoneOf '';'')), Lit '';'']"

definition rx_pragma_version :: rx where
  \<comment> \<open>\<^verbatim>\<open>/pragma\s+solidity\s+([^;]+);/g\<close>\<close>
  "rx_pragma_version =
     seqs [Lit ''pragma'', rx_space_plus, Lit ''solidity'', rx_space_plus,
           Grp 1 (Plus (Chr (CNoneOf '';''))), Lit '';'']"

definition rx_pragma_old :: rx where
  \<comment> \<open>\<^verbatim>\<open>/pragma\s+solidity\s+0\.(4|5|6|7)\./\<close>\<close>
  "rx_pragma_old =
     seqs [Lit ''pragma'', rx_space_plus, Lit ''solidity'', rx_space_plus, Lit ''0.'',
           Grp 1 (alts [Lit ''4'', Lit ''5'', Lit ''6'', Lit ''7'']), Lit ''.'']"

definition rx_function_address :: rx where
  \<comment> \<open>\<^verbatim>\<open>/function\s+\w+.*address.*\{/\<close>\<close>
  "rx_function_address =
     seqs [Lit ''function'', rx_space_plus, rx_word_plus, any_star, Lit ''address'', any_star, Lit ''{'']"

definition rx_require_nonzero :: rx where
  \<comment> \<open>\<^verbatim>\<open>/require\(.*!=.*address\(0\)/\<close>\<close>
  "rx_require_nonzero = seqs [Lit ''require('', any_star, Lit ''!='', any_star, Lit ''address(0)'']"

definition rx_payable_external :: rx where
  \<comment> \<open>\<^verbatim>\<open>/function\s+\w+.*payable.*external.*\{/\<close>\<close>
  "rx_payable_external =
     seqs [Lit ''function'', rx_space_plus, rx_word_plus, any_star, Lit ''payable'', any_star,
           Lit ''external'', any_star, Lit ''{'']"

definition rx_access_sig :: rx where
  \<comment> \<open>\<^verbatim>\<open>/onlyOwner|AccessControl/\<close>\<close>
  "rx_access_sig = Alt (Lit ''onlyOwner'') (Lit ''AccessControl'')"

definition rx_transfer_send :: rx where
  \<comment> \<open>\<^verbatim>\<open>/\.transfer\(|\.send\(/\<close>\<close>
  "rx_transfer_send = Alt (Lit ''.transfer('') (Lit ''.send('')"

definition rx_block_field :: rx where
  \<comment> \<open>\<^verbatim>\<open>/block\.(timestamp|number|hash|difficulty|gaslimit)/\<close>\<close>
  "rx_block_field =
     Seq (Lit ''block.'')
         (Grp 1 (alts [Lit ''timestamp'', Lit ''number'', Lit ''hash'', Lit ''difficulty'',
                       Lit ''gaslimit'']))"

definition rx_random :: rx where
  \<comment> \<open>\<^verbatim>\<open>/random|Random/\<close>\<close>
  "rx_random = Alt (Lit ''random'') (Lit ''Random'')"

definition rx_continue_break :: rx where
  \<comment> \<open>\<^verbatim>\<open>/continue|break/\<close>\<close>
  "rx_continue_break = Alt (Lit ''continue'') (Lit ''break'')"

definition rx_state_var :: rx where
  \<comment> \<open>\<^verbatim>\<open>/^\s*(uint|int|bool|address|string|bytes|mapping)\s+\w+/gm\<close>\<close>
  "rx_state_var =
     seqs [Bol, space_star,
           Grp 1 (alts [Lit ''uint'', Lit ''int'', Lit ''bool'', Lit ''address'', Lit ''string'',
                        Lit ''bytes'', Lit ''mapping'']),
           rx_space_plus, rx_word_plus]"

definition rx_local_var :: rx where
  \<comment> \<open>\<^verbatim>\<open>/function\s+\w+.*\([^)]*\)[^{]*\{[^}]*\b(uint|int|bool|address|string|bytes)\s+(\w+)/g\<close>\<close>
  "rx_local_var =
     seqs [Lit ''function'', rx_space_plus, rx_word_plus, any_star, Lit ''('', not_star '')'',
           Lit '')'', not_star ''{'', Lit ''{'', not_star ''}'', WordB,
           Grp 1 (alts [Lit ''uint'', Lit ''int'', Lit ''bool'', Lit ''address'', Lit ''string'',
                        Lit ''bytes'']),
           rx_space_plus, Grp 2 rx_word_plus]"

definition isFloating :: "string \<Rightarrow> bool" where
  \<comment> \<open>\<^verbatim>\<open>p.includes("^") || p.includes(">=") || p.includes("~")\<close>\<close>
  "isFloating p = (str_includes p ''^'' \<or> str_includes p ''>='' \<or> str_includes p ''~'')"

definition push_if :: "bool \<Rightarrow> 'a \<Rightarrow> 'a list \<Rightarrow> 'a list" where
  \<comment> \<open>\<^verbatim>\<open>if (cond) xs.push(x)\<close>\<close>
  "push_if cond x xs = (if cond then xs @ [x] else xs)"

text \<open>
  The body of \<^verbatim>\<open>checkVulnerabilityIndicators\<close> is a sequence of statements
  \<^verbatim>\<open>if (cond) indicators.push(msg)\<close>.  \<open>indicatorChecks\<close> lists them in the order of the
  source, each condition beside its message; the function runs down the list.
\<close>

definition indicatorChecks :: "string \<Rightarrow> (bool \<times> string) list" where
  "indicatorChecks src =
    (let stateChangingFns = rx_matchAll False rx_function_open src;
         events = rx_matchAll False rx_event src;
         pragmas = rx_matchAll False rx_pragma_version src;
         stateVars = rx_matchAll False rx_state_var src;
         localVars = rx_matchAll False rx_local_var src
     in [(((str_includes src ''.call{'' \<or> str_includes src ''.call('' \<or> str_includes src ''.send(''
           \<or> str_includes src ''.transfer('')
           \<and> \<not> str_includes src ''nonReentrant'' \<and> \<not> str_includes src ''ReentrancyGuard''),
          ''CRITICAL: Potential reentrancy - external call without guard''),
         ((rx_test False rx_call_value src \<and> \<not> str_includes src ''nonReentrant''),
          ''CRITICAL: ETH transfer via call without reentrancy protection''),
         ((str_includes src ''tx.origin''),
          ''CRITICAL: tx.origin usage - vulnerable to phishing attacks''),
         ((rx_test True rx_privileged src \<and> \<not> str_includes src ''onlyOwner''
           \<and> \<not> str_includes src ''AccessControl''),
          ''HIGH: Privileged function without access control''),
         ((str_includes src ''selfdestruct'' \<and> \<not> str_includes src ''onlyOwner''),
          ''CRITICAL: selfdestruct without access control''),
         ((str_includes src ''delegatecall'' \<and> \<not> rx_test True rx_require_sender src),
          ''CRITICAL: delegatecall without proper validation''),
         ((rx_test False rx_arith src \<and> \<not> str_includes src ''SafeMath''
           \<and> \<not> rx_test False rx_pragma_08 src),
          ''HIGH: Unchecked arithmetic - potential overflow/underflow''),
         ((rx_test False rx_ext_call src \<and> \<not> rx_test False rx_checked_success src),
          ''MEDIUM: Unchecked external call return value''),
         ((rx_test False rx_block_time src \<and> rx_test False rx_require_block src),
          ''MEDIUM: Time-dependent logic - potential front-running''),
         ((rx_test False rx_loop_call src),
          ''MEDIUM: Loop with external calls - gas griefing risk''),
         ((length stateChangingFns > length events * 2),
          ''LOW: Missing event emissions for state changes''),
         ((str_includes src ''assembly''),
          ''HIGH: Inline assembly - requires careful security review''),
         ((rx_test False rx_storage_ptr src \<and> \<not> rx_test False rx_assignment src),
          ''HIGH: Uninitialized storage pointer''),
         ((list_ex isFloating pragmas),
          ''MEDIUM: Floating pragma - use fixed version for production''),
         ((rx_test False rx_pragma_old src),
          ''HIGH: Outdated Solidity version - known vulnerabilities''),
         ((rx_test False rx_function_address src \<and> \<not> rx_test False rx_require_nonzero src),
          ''MEDIUM: Missing zero address validation''),
         ((rx_test False rx_payable_external src \<and> \<not> rx_test False rx_access_sig src),
          ''HIGH: Unprotected payable function''),
         ((rx_test False rx_transfer_send src \<and> \<not> rx_test False rx_require_success src),
          ''MEDIUM: Missing return value check for transfer/send''),
         ((rx_test False rx_block_field src \<and> rx_test False rx_random src),
          ''CRITICAL: Weak randomness source - predictable values''),
         ((rx_test False rx_loop_call src \<and> \<not> rx_test False rx_continue_break src),
          ''MEDIUM: DoS risk - loop with external calls may fail''),
         ((length stateVars > 0 \<and> length localVars > 0),
          ''LOW: Potential variable shadowing - verify manually'')])"

definition checkVulnerabilityIndicators :: "string \<Rightarrow> string list" where
  "checkVulnerabilityIndicators src =
     foldl (\<lambda>indicators (cond, msg). push_if cond msg indicators) [] (indicatorChecks src)"

text \<open>The messages, in the order in which the checks run.\<close>

definition indicatorTable :: "string list" where
  "indicatorTable =
     [''CRITICAL: Potential reentrancy - external call without guard'',
      ''CRITICAL: ETH transfer via call without reentrancy protection'',
      ''CRITICAL: tx.origin usage - vulnerable to phishing attacks'',
      ''HIGH: Privileged function without access control'',
      ''CRITICAL: selfdestruct without access control'',
      ''CRITICAL: delegatecall without proper validation'',
      ''HIGH: Unchecked arithmetic - potential overflow/underflow'',
      ''MEDIUM: Unchecked external call return value'',
      ''MEDIUM: Time-dependent logic - potential front-running'',
      ''MEDIUM: Loop with external calls - gas griefing risk'',
      ''LOW: Missing event emissions for state changes'',
      ''HIGH: Inline assembly - requires careful security review'',
      ''HIGH: Uninitialized storage pointer'',
      ''MEDIUM: Floating pragma - use fixed version for production'',
      ''HIGH: Outdated Solidity version - known vulnerabilities'',
      ''MEDIUM: Missing zero address validation'',
      ''HIGH: Unprotected payable function'',
      ''MEDIUM: Missing return value check for transfer/send'',
      ''CRITICAL: Weak randomness source - predictable values'',
      ''MEDIUM: DoS risk - loop with external calls may fail'',
      ''LOW: Potential variable shadowing - verify manually'']"

definition detectProtocolType :: "string \<Rightarrow> string list" where
  "detectProtocolType src =
    (let protos = [];
         protos = push_if (str_includes src ''transfer('' \<or> str_includes src ''balanceOf('') ''ERC20'' protos;
         protos = push_if (str_includes src ''ownerOf('' \<or> str_includes src ''tokenURI('') ''ERC721'' protos;
         protos = push_if (str_includes src ''IVault'' \<or> str_includes src ''getPoolTokens'') ''Balancer'' protos;
         protos = push_if (str_includes src ''getReserves'' \<or> str_includes src ''UniswapV2'') ''Uniswap'' protos;
         protos = push_if (str_includes src ''AggregatorV3'' \<or> str_includes src ''latestRoundData'') ''Chainlink'' protos;
         protos = push_if (str_includes src ''Ownable'' \<or> str_includes src ''AccessControl'') ''OpenZeppelin'' protos
     in protos)"

section \<open>Errors and the outside world\<close>

text \<open>
  Every \<^verbatim>\<open>throw\<close> of the program is a value.  The three classes of \<^verbatim>\<open>core/errors.ts\<close>
  extend \<^verbatim>\<open>McpError\<close>; \<open>ExternalError\<close> stands for whatever a collaborator outside the
  repository (file system, vector database client) throws, and carries its rendering
  \<^verbatim>\<open>String(e)\<close>.
\<close>

datatype error =
    FileError string string            \<comment> \<open>message, path\<close>
  | ToolNotFoundError string string    \<comment> \<open>tool, hint\<close>
  | ToolExecutionError string string   \<comment> \<open>message, tool\<close>
  | ExternalError string

fun error_string :: "error \<Rightarrow> string" where
  \<comment> \<open>\<^verbatim>\<open>String(e)\<close>; the constructor of \<^verbatim>\<open>McpError\<close> sets \<^verbatim>\<open>name\<close> to \<^verbatim>\<open>"McpError"\<close>\<close>
  "error_string (FileError msg p) = ''McpError: '' @ msg"
| "error_string (ToolNotFoundError tool hint) = ''McpError: Tool not found: '' @ tool"
| "error_string (ToolExecutionError msg tool) = ''McpError: '' @ msg"
| "error_string (ExternalError s) = s"

text \<open>What \<^verbatim>\<open>execSync\<close> does: it returns the standard output of a process that exits
  with status 0, and throws an error object otherwise (non-zero exit, signal, timeout,
  spawn failure), whose fields \<^verbatim>\<open>stdout\<close>, \<^verbatim>\<open>stderr\<close> and \<^verbatim>\<open>status\<close> may be absent.
  Both carry the time the call took, which the program reads off the clock.\<close>

datatype exec_outcome =
    Returned string nat
  | Threw "string option" "string option" "nat option" string nat
      \<comment> \<open>stdout, stderr, status, message, elapsed\<close>

text \<open>JSON-like values held in the metadata of a knowledge-base record;
  \<^verbatim>\<open>undefined\<close> is the absence of the key.\<close>

datatype jsval = JStr string | JNum int | JBool bool | JNull

type_synonym metadata = "(string \<times> jsval) list"

definition mget :: "metadata \<Rightarrow> string \<Rightarrow> jsval option" where
  "mget md k = map_of md k"

fun truthy :: "jsval option \<Rightarrow> bool" where
  "truthy None = False"
| "truthy (Some (JStr s)) = (s \<noteq> [])"
| "truthy (Some (JNum n)) = (n \<noteq> 0)"
| "truthy (Some (JBool b)) = b"
| "truthy (Some JNull) = False"

fun js_toString :: "jsval option \<Rightarrow> string" where
  \<comment> \<open>\<^verbatim>\<open>String(v)\<close>\<close>
  "js_toString None = ''undefined''"
| "js_toString (Some (JStr s)) = s"
| "js_toString (Some (JNum n)) = show_int n"
| "js_toString (Some (JBool b)) = (if b then ''true'' else ''false'')"
| "js_toString (Some JNull) = ''null''"

fun js_joinItem :: "jsval option \<Rightarrow> string" where
  \<comment> \<open>an element under \<^verbatim>\<open>Array.prototype.join\<close>: \<^verbatim>\<open>undefined\<close> and \<^verbatim>\<open>null\<close> are empty\<close>
  "js_joinItem None = []"
| "js_joinItem (Some JNull) = []"
| "js_joinItem v = js_toString v"

text \<open>A row of a vector-database answer (\<^verbatim>\<open>QueryResult\<close> of \<^verbatim>\<open>knowledge.service.ts\<close>).
  The distance is a JavaScript number; it is modelled as a rational.\<close>

record QueryResult =
  qr_id :: string
  qr_document :: string
  qr_metadata :: metadata
  qr_distance :: rat

record FileInfo =
  fi_path :: string
  fi_name :: string
  fi_size :: nat
  fi_lines :: nat

text \<open>
  The collaborators of the program, as functions: the file system, \<^verbatim>\<open>path\<close>, the shell
  (\<^verbatim>\<open>which\<close> succeeds or not; \<^verbatim>\<open>execSync\<close> of a command line in a directory under a
  timeout), and \<^verbatim>\<open>vectorDb.query\<close> (collection, query text, \<^verbatim>\<open>nResults\<close>, \<^verbatim>\<open>where\<close>),
  which answers with rows or throws.  \<open>answerTime\<close> is the time the vector database takes
  over a query; it decides which of several queries under way at once settles first.
\<close>

record env =
  existsSync :: "string \<Rightarrow> bool"
  statSize :: "string \<Rightarrow> nat"
  readFileSync :: "string \<Rightarrow> error + string"
  basename :: "string \<Rightarrow> string"
  dirname :: "string \<Rightarrow> string"
  which :: "string \<Rightarrow> bool"
  execSync :: "string \<Rightarrow> string \<Rightarrow> nat \<Rightarrow> exec_outcome"
  vectorDbQuery :: "string \<Rightarrow> string \<Rightarrow> rat \<Rightarrow> (string \<times> string) option \<Rightarrow> error + QueryResult list"
  answerTime :: "string \<Rightarrow> string \<Rightarrow> rat \<Rightarrow> (string \<times> string) option \<Rightarrow> nat"

subsection \<open>Configuration (\<^verbatim>\<open>core/config.ts\<close>)\<close>

definition timeouts_default :: nat where "timeouts_default = 60000"
definition timeouts_analysis :: nat where "timeouts_analysis = 300000"
definition maxFileSize :: nat where "maxFileSize = 10485760"

subsection \<open>Files (\<^verbatim>\<open>utils/file.utils.ts\<close>)\<close>

definition fs_exists :: "env \<Rightarrow> string \<Rightarrow> bool" where
  "fs_exists E p = existsSync E p"

definition readFile :: "env \<Rightarrow> string \<Rightarrow> error + string" where
  "readFile E p =
     (if \<not> fs_exists E p then Inl (FileError ''File not found'' p)
      else let size = statSize E p
           in if size > maxFileSize then Inl (FileError (''File too large: '' @ show_nat size) p)
              else readFileSync E p)"

text \<open>\<^verbatim>\<open>content.split("\n").length\<close>: one more than the number of line feeds.\<close>

definition split_lines_count :: "string \<Rightarrow> nat" where
  "split_lines_count content = length (filter (\<lambda>c. c = newline) content) + 1"

definition getFileInfo :: "env \<Rightarrow> string \<Rightarrow> error + FileInfo" where
  "getFileInfo E p =
     (case readFile E p of
        Inl e \<Rightarrow> Inl e
      | Inr content \<Rightarrow>
          Inr \<lparr>fi_path = p, fi_name = basename E p, fi_size = statSize E p,
               fi_lines = split_lines_count content\<rparr>)"

subsection \<open>The external tool runner (\<^verbatim>\<open>utils/command.utils.ts\<close>)\<close>

record CommandResult =
  success :: bool
  command :: string
  stdout :: string
  stderr :: string
  duration :: nat
  exitCode :: nat

definition HINTS :: "(string \<times> string) list" where
  "HINTS =
     [(''slither'', ''pip install slither-analyzer''),
      (''myth'', ''pip install mythril''),
      (''forge'', ''curl -L https://foundry.paradigm.xyz | bash && foundryup''),
      (''echidna-test'', ''https://github.com/crytic/echidna''),
      (''solhint'', ''npm install -g solhint''),
      (''surya'', ''npm install -g surya''),
      (''aderyn'', ''cargo install aderyn''),
      (''halmos'', ''pip install halmos'')]"

definition isToolInstalled :: "env \<Rightarrow> string \<Rightarrow> bool" where
  "isToolInstalled E tool = which E tool"

definition getInstallHint :: "string \<Rightarrow> string" where
  "getInstallHint tool =
     (case map_of HINTS tool of
        Some h \<Rightarrow> if h = [] then ''Install '' @ tool else h
      | None \<Rightarrow> ''Install '' @ tool)"

record exec_opts =
  opt_cwd :: "string option"
  opt_timeout :: "nat option"

text \<open>\<open>here\<close> is \<^verbatim>\<open>process.cwd()\<close>, the default working directory.\<close>

definition executeCommand :: "env \<Rightarrow> string \<Rightarrow> string \<Rightarrow> string list \<Rightarrow> exec_opts \<Rightarrow> error + CommandResult" where
  "executeCommand E here cmd args opts =
     (if \<not> isToolInstalled E cmd then Inl (ToolNotFoundError cmd (getInstallHint cmd))
      else
        let cwd = (case opt_cwd opts of None \<Rightarrow> here | Some d \<Rightarrow> d);
            timeout = (case opt_timeout opts of None \<Rightarrow> timeouts_default | Some t \<Rightarrow> t);
            full = cmd @ '' '' @ join '' '' args
        in case execSync E full cwd timeout of
             Returned out elapsed \<Rightarrow>
               Inr \<lparr>success = True, command = full, stdout = out, stderr = [],
                    duration = elapsed, exitCode = 0\<rparr>
           | Threw e_stdout e_stderr e_status e_message elapsed \<Rightarrow>
               (case e_stdout of
                  None \<Rightarrow> Inl (ToolExecutionError e_message cmd)
                | Some out \<Rightarrow>
                    if out = [] then Inl (ToolExecutionError e_message cmd)
                    else Inr \<lparr>success = True, command = full, stdout = out,
                              stderr = (case e_stderr of None \<Rightarrow> [] | Some err \<Rightarrow> err),
                              duration = elapsed,
                              exitCode = (case e_status of None \<Rightarrow> 1
                                          | Some st \<Rightarrow> if st = 0 then 1 else st)\<rparr>))"

section \<open>Knowledge service (\<^verbatim>\<open>services/knowledge.service.ts\<close>)\<close>

definition EXPLOITS :: string where "EXPLOITS = ''exploits''"
definition AUDIT_FINDINGS :: string where "AUDIT_FINDINGS = ''audit_findings''"
definition SWC :: string where "SWC = ''swc_registry''"

definition findSimilarExploits :: "env \<Rightarrow> string \<Rightarrow> rat \<Rightarrow> error + QueryResult list" where
  \<comment> \<open>called without a category, so \<^verbatim>\<open>where\<close> is \<^verbatim>\<open>undefined\<close>\<close>
  "findSimilarExploits E query limit = vectorDbQuery E EXPLOITS query limit None"

definition findSimilarAuditFindings :: "env \<Rightarrow> string \<Rightarrow> rat \<Rightarrow> error + QueryResult list" where
  "findSimilarAuditFindings E query limit = vectorDbQuery E AUDIT_FINDINGS query limit None"

definition querySWC :: "env \<Rightarrow> string \<Rightarrow> rat \<Rightarrow> error + QueryResult list" where
  "querySWC E query limit = vectorDbQuery E SWC query limit None"

record SearchResults =
  sr_exploits :: "QueryResult list"
  sr_auditFindings :: "QueryResult list"
  sr_swc :: "QueryResult list"

text \<open>
  \<^verbatim>\<open>Promise.all\<close> of the three searches.  They are under way at once; when all three
  answer, the result holds the three answers, and otherwise the call throws the error of
  the search that failed first in time.  \<open>rejections\<close> lists the failures with their times
  in the order the searches are listed, and \<open>firstRejection\<close> picks the earliest; of two
  at the same time it picks the one listed first.
\<close>

definition rejection :: "nat \<Rightarrow> error + 'a \<Rightarrow> (nat \<times> error) list" where
  "rejection t r = (case r of Inl e \<Rightarrow> [(t, e)] | Inr x \<Rightarrow> [])"

fun firstRejection :: "nat \<times> error \<Rightarrow> (nat \<times> error) list \<Rightarrow> error" where
  "firstRejection (t, e) [] = e"
| "firstRejection (t, e) ((t', e') # rest) =
     (if t' < t then firstRejection (t', e') rest else firstRejection (t, e) rest)"

definition searchAll :: "env \<Rightarrow> string \<Rightarrow> rat \<Rightarrow> error + SearchResults" where
  "searchAll E query limit =
     (let tExploits = answerTime E EXPLOITS query limit None;
          tAudit = answerTime E AUDIT_FINDINGS query limit None;
          tSwc = answerTime E SWC query limit None;
          rExploits = findSimilarExploits E query limit;
          rAudit = findSimilarAuditFindings E query limit;
          rSwc = querySWC E query limit
      in case rExploits of
           Inl e \<Rightarrow> Inl (firstRejection (tExploits, e) (rejection tAudit rAudit @ rejection tSwc rSwc))
         | Inr exploits \<Rightarrow>
        (case rAudit of
           Inl e \<Rightarrow> Inl (firstRejection (tAudit, e) (rejection tSwc rSwc))
         | Inr auditFindings \<Rightarrow>
        (case rSwc of
           Inl e \<Rightarrow> Inl e
         | Inr swc \<Rightarrow>
             Inr \<lparr>sr_exploits = exploits, sr_auditFindings = auditFindings, sr_swc = swc\<rparr>)))"

section \<open>Comprehensive analysis (\<^verbatim>\<open>tools/analysis/comprehensive_analysis.ts\<close>)\<close>

subsection \<open>The contract analysis\<close>

record CaMetadata =
  md_contracts :: "string list"
  md_interfaces :: "string list"
  md_libraries :: "string list"
  compilerVersions :: "string list"
  hasFloatingPragma :: bool
  hasOutdatedCompiler :: bool
  dependencies :: "string list"
  hasOpenZeppelin :: bool
  hasExternalDependencies :: bool

record CaSummary =
  totalFunctions :: nat
  sum_external :: nat
  sum_public :: nat
  sum_payable :: nat
  sum_view :: nat
  stateChanging :: nat

record SeverityBreakdown =
  critical :: nat
  high :: nat
  medium :: nat
  low :: nat

record CaSecurity =
  hasReentrancyGuard :: bool
  hasAccessControl :: bool
  hasSafeMath :: bool
  indicators :: "string list"
  severityBreakdown :: SeverityBreakdown
  privilegedFunctionsWithoutAccessControl :: "string list"

record FnRef =
  ref_name :: string
  ref_line :: nat
  ref_mutability :: string

record CaFunctions =
  fns_external :: "FnRef list"
  fns_public :: "FnRef list"

record ContractAnalysis =
  ca_file :: FileInfo
  ca_metadata :: CaMetadata
  ca_summary :: CaSummary
  ca_security :: CaSecurity
  ca_protocols :: "string list"
  ca_functions :: CaFunctions

definition rx_solidity_version :: rx where
  \<comment> \<open>\<^verbatim>\<open>/solidity\s+([^;]+)/\<close>\<close>
  "rx_solidity_version = seqs [Lit ''solidity'', rx_space_plus, Grp 1 (Plus (Chr (CNoneOf '';'')))]"

definition rx_zero_minor :: rx where
  \<comment> \<open>\<^verbatim>\<open>/0\.(\d+)\./\<close>\<close>
  "rx_zero_minor = seqs [Lit ''0.'', Grp 1 (Plus (Chr CDigit)), Lit ''.'']"

definition rx_zero_eight :: rx where
  \<comment> \<open>\<^verbatim>\<open>/0\.8\./\<close>\<close>
  "rx_zero_eight = Lit ''0.8.''"

definition rx_quoted :: rx where
  \<comment> \<open>\<^verbatim>\<open>/["']([^"']+)["']/\<close>\<close>
  "rx_quoted =
     seqs [Chr (COneOf [CHR 0x22, CHR 0x27]), Grp 1 (Plus (Chr (CNoneOf [CHR 0x22, CHR 0x27]))),
           Chr (COneOf [CHR 0x22, CHR 0x27])]"

definition rx_function_content :: "string \<Rightarrow> rx" where
  \<comment> \<open>\<^verbatim>\<open>function\s+NAME\s*\([^)]*\)[^{]*\{([^}]+(?:\{[^}]*\}[^}]*)*)\}\<close>\<close>
  "rx_function_content functionName =
     seqs [Lit ''function'', rx_space_plus, Lit functionName, space_star, Lit ''('', not_star '')'',
           Lit '')'', not_star ''{'', Lit ''{'',
           Grp 1 (Seq (Plus (Chr (CNoneOf ''}'')))
                      (Star (seqs [Lit ''{'', not_star ''}'', Lit ''}'', not_star ''}'']))),
           Lit ''}'']"

definition extractFunctionContent :: "string \<Rightarrow> string \<Rightarrow> string option" where
  "extractFunctionContent src functionName =
     (case rx_exec False (rx_function_content functionName) src of
        None \<Rightarrow> None
      | Some m \<Rightarrow> m_group m 1)"

fun parseInt :: "string \<Rightarrow> nat" where
  \<comment> \<open>\<^verbatim>\<open>parseInt\<close> of a run of decimal digits\<close>
  "parseInt ds = foldl (\<lambda>n c. 10 * n + (of_char c - 48)) 0 ds"

definition compilerVersionOf :: "string \<Rightarrow> string" where
  "compilerVersionOf p =
     (case rx_exec False rx_solidity_version p of
        Some m \<Rightarrow> (case m_group m 1 of Some v \<Rightarrow> trim v | None \<Rightarrow> ''unknown'')
      | None \<Rightarrow> ''unknown'')"

definition isOutdated :: "string \<Rightarrow> bool" where
  "isOutdated v =
     (case rx_exec False rx_zero_minor v of
        Some versionMatch \<Rightarrow>
          (case m_group versionMatch 1 of Some d \<Rightarrow> parseInt d < 8 | None \<Rightarrow> False)
      | None \<Rightarrow> False)"

definition dependencyOf :: "string \<Rightarrow> string" where
  "dependencyOf imp =
     (case rx_exec False rx_quoted imp of
        Some m \<Rightarrow> (case m_group m 1 of Some d \<Rightarrow> d | None \<Rightarrow> imp)
      | None \<Rightarrow> imp)"

definition isPrivileged :: "string \<Rightarrow> SolidityFunction \<Rightarrow> bool" where
  "isPrivileged content f =
     (case extractFunctionContent content (fn_name f) of
        None \<Rightarrow> False
      | Some fnContent \<Rightarrow>
          fnContent \<noteq> []
          \<and> (str_includes fnContent ''transfer'' \<or> str_includes fnContent ''withdraw''
             \<or> str_includes fnContent ''setOwner'' \<or> str_includes fnContent ''destroy''
             \<or> str_includes fnContent ''kill'')
          \<and> \<not> str_includes fnContent ''onlyOwner'' \<and> \<not> str_includes fnContent ''AccessControl'')"

definition externalFns :: "string \<Rightarrow> SolidityFunction list" where
  "externalFns content = filter (\<lambda>f. fn_visibility f = ''external'') (extractFunctions content)"

definition publicFns :: "string \<Rightarrow> SolidityFunction list" where
  "publicFns content = filter (\<lambda>f. fn_visibility f = ''public'') (extractFunctions content)"

definition payableFns :: "string \<Rightarrow> SolidityFunction list" where
  "payableFns content = filter (\<lambda>f. fn_mutability f = ''payable'') (extractFunctions content)"

definition viewFns :: "string \<Rightarrow> SolidityFunction list" where
  "viewFns content =
     filter (\<lambda>f. fn_mutability f = ''view'' \<or> fn_mutability f = ''pure'') (extractFunctions content)"

definition privilegedFunctions :: "string \<Rightarrow> SolidityFunction list" where
  "privilegedFunctions content = filter (isPrivileged content) (externalFns content)"

definition countIncluding :: "string \<Rightarrow> string list \<Rightarrow> nat" where
  \<comment> \<open>\<^verbatim>\<open>indicators.filter(i => i.includes(token)).length\<close>\<close>
  "countIncluding token inds = length (filter (\<lambda>i. str_includes i token) inds)"

definition fnRef :: "SolidityFunction \<Rightarrow> FnRef" where
  "fnRef f = \<lparr>ref_name = fn_name f, ref_line = fn_lineNumber f, ref_mutability = fn_mutability f\<rparr>"

text \<open>Step 1 of the handler, from the text of the file and the file's description.\<close>

definition contractAnalysisOf :: "FileInfo \<Rightarrow> string \<Rightarrow> ContractAnalysis" where
  "contractAnalysisOf info content =
    (let metadata = extractMetadata content;
         fns = extractFunctions content;
         inds = checkVulnerabilityIndicators content;
         versions = map compilerVersionOf (pragmas metadata);
         deps = map dependencyOf (import_stmts metadata)
     in \<lparr>ca_file = info,
         ca_metadata =
           \<lparr>md_contracts = contracts metadata,
            md_interfaces = interfaces metadata,
            md_libraries = libraries metadata,
            compilerVersions = versions,
            hasFloatingPragma = list_ex isFloating versions,
            hasOutdatedCompiler = list_ex isOutdated versions,
            dependencies = deps,
            hasOpenZeppelin =
              list_ex (\<lambda>d. str_includes d ''openzeppelin'' \<or> str_includes d ''OpenZeppelin'') deps,
            hasExternalDependencies = (length deps > 0)\<rparr>,
         ca_summary =
           \<lparr>totalFunctions = length fns,
            sum_external = length (externalFns content),
            sum_public = length (publicFns content),
            sum_payable = length (payableFns content),
            sum_view = length (viewFns content),
            stateChanging =
              length (filter (\<lambda>f. fn_mutability f \<noteq> ''view'' \<and> fn_mutability f \<noteq> ''pure'') fns)\<rparr>,
         ca_security =
           \<lparr>hasReentrancyGuard =
              (str_includes content ''nonReentrant'' \<or> str_includes content ''ReentrancyGuard''),
            hasAccessControl =
              (str_includes content ''onlyOwner'' \<or> str_includes content ''AccessControl''),
            hasSafeMath =
              (str_includes content ''SafeMath'' \<or> list_ex (rx_test False rx_zero_eight) versions),
            indicators = inds,
            severityBreakdown =
              \<lparr>critical = countIncluding ''CRITICAL'' inds,
               high = countIncluding ''HIGH'' inds,
               medium = countIncluding ''MEDIUM'' inds,
               low = countIncluding ''LOW'' inds\<rparr>,
            privilegedFunctionsWithoutAccessControl = map fn_name (privilegedFunctions content)\<rparr>,
         ca_protocols = detectProtocolType content,
         ca_functions =
           \<lparr>fns_external = map fnRef (externalFns content),
            fns_public = map fnRef (publicFns content)\<rparr>\<rparr>)"

subsection \<open>Knowledge results and their display shapes\<close>

record FormattedResult =
  fr_id :: string
  fr_relevance :: string
  fr_metadata :: metadata
  fr_excerpt :: string

text \<open>\<^verbatim>\<open>Math.round((1 - distance) * 100) + "%"\<close>.  The distance is the double its decimal
  denotes; the difference and the product are rounded as the program's are.\<close>

definition percent :: "rat \<Rightarrow> string" where
  "percent d = integralToString (Math_round (fl (fl (1 - fl d) * 100))) @ ''%''"

definition formatResult :: "QueryResult \<Rightarrow> FormattedResult" where
  "formatResult result =
     \<lparr>fr_id = qr_id result,
      fr_relevance = percent (qr_distance result),
      fr_metadata = qr_metadata result,
      fr_excerpt = substring0 (qr_document result) 300
                   @ (if length (qr_document result) > 300 then ''...'' else [])\<rparr>"

text \<open>\<^verbatim>\<open>knowledgeResults\<close>: the empty object, or an object with the three lists.\<close>

record KnowledgeResults =
  kr_swc :: "FormattedResult list option"
  kr_exploits :: "FormattedResult list option"
  kr_auditFindings :: "FormattedResult list option"

definition noKnowledge :: KnowledgeResults where
  "noKnowledge = \<lparr>kr_swc = None, kr_exploits = None, kr_auditFindings = None\<rparr>"

record SimilarExploit =
  se_id :: string
  se_similarity :: string
  se_name :: "jsval option"
  se_protocol :: "jsval option"
  se_category :: "jsval option"
  se_loss :: "jsval option"
  se_date :: "jsval option"
  se_source :: "jsval option"
  se_description :: string
  se_attackVector :: "jsval option"

definition similarExploitOf :: "QueryResult \<Rightarrow> SimilarExploit" where
  "similarExploitOf r =
     \<lparr>se_id = qr_id r,
      se_similarity = percent (qr_distance r),
      se_name = mget (qr_metadata r) ''name'',
      se_protocol = mget (qr_metadata r) ''protocol'',
      se_category = mget (qr_metadata r) ''category'',
      se_loss = mget (qr_metadata r) ''loss'',
      se_date = mget (qr_metadata r) ''date'',
      se_source = mget (qr_metadata r) ''source'',
      se_description = substring0 (qr_document r) 500,
      se_attackVector = mget (qr_metadata r) ''attackVector''\<rparr>"

subsection \<open>Step 1.5: external tools\<close>

record ToolReport =
  tr_available :: bool
  tr_status :: "string option"
  tr_output :: "string option"
  tr_error :: "string option"
  tr_hint :: "string option"

definition toolRan :: "string \<Rightarrow> string \<Rightarrow> ToolReport" where
  "toolRan status out =
     \<lparr>tr_available = True, tr_status = Some status, tr_output = Some out,
      tr_error = None, tr_hint = None\<rparr>"

definition toolFailed :: "error \<Rightarrow> ToolReport" where
  "toolFailed e =
     \<lparr>tr_available = True, tr_status = Some ''failed'', tr_output = None,
      tr_error = Some (error_string e), tr_hint = None\<rparr>"

definition toolMissing :: "string \<Rightarrow> ToolReport" where
  "toolMissing hint =
     \<lparr>tr_available = False, tr_status = None, tr_output = None, tr_error = None,
      tr_hint = Some hint\<rparr>"

definition runSlither :: "env \<Rightarrow> string \<Rightarrow> string \<Rightarrow> (string \<times> ToolReport) list" where
  "runSlither E here p =
     (if isToolInstalled E ''slither''
      then (case executeCommand E here ''slither'' [p, ''--json'', ''-'']
                   \<lparr>opt_cwd = Some (dirname E p), opt_timeout = Some timeouts_analysis\<rparr> of
              Inr slitherResult \<Rightarrow>
                if success slitherResult
                then [(''slither'', toolRan ''completed'' (substring0 (stdout slitherResult) 5000))]
                else []
            | Inl e \<Rightarrow> [(''slither'', toolFailed e)])
      else [(''slither'', toolMissing ''pip install slither-analyzer'')])"

definition runSolhint :: "env \<Rightarrow> string \<Rightarrow> string \<Rightarrow> (string \<times> ToolReport) list" where
  "runSolhint E here p =
     (if isToolInstalled E ''solhint''
      then (case executeCommand E here ''solhint'' [p]
                   \<lparr>opt_cwd = Some (dirname E p), opt_timeout = Some 30000\<rparr> of
              Inr solhintResult \<Rightarrow>
                [(''solhint'', toolRan (if exitCode solhintResult = 0 then ''passed'' else ''warnings'')
                                       (substring0 (stdout solhintResult) 2000))]
            | Inl e \<Rightarrow> [(''solhint'', toolFailed e)])
      else [(''solhint'', toolMissing ''npm install -g solhint'')])"

definition runMythril :: "env \<Rightarrow> string \<Rightarrow> string \<Rightarrow> bool \<Rightarrow> (string \<times> ToolReport) list" where
  "runMythril E here p comprehensive =
     (if comprehensive \<and> isToolInstalled E ''myth''
      then (case executeCommand E here ''myth'' [''analyze'', p, ''--execution-timeout'', ''60'']
                   \<lparr>opt_cwd = Some (dirname E p), opt_timeout = Some timeouts_analysis\<rparr> of
              Inr mythrilResult \<Rightarrow>
                [(''mythril'', toolRan (if exitCode mythrilResult = 0 then ''completed'' else ''warnings'')
                                       (substring0 (stdout mythrilResult) 5000))]
            | Inl e \<Rightarrow> [(''mythril'', toolFailed e)])
      else if comprehensive then [(''mythril'', toolMissing ''pip install mythril'')]
      else [])"

definition runExternalTools :: "env \<Rightarrow> string \<Rightarrow> string \<Rightarrow> bool \<Rightarrow> bool \<Rightarrow> (string \<times> ToolReport) list" where
  "runExternalTools E here p useTools comprehensive =
     (if useTools then runSlither E here p @ runSolhint E here p @ runMythril E here p comprehensive
      else [])"

subsection \<open>Step 2: the queries\<close>

definition indicatorQueryParts :: "string \<Rightarrow> string list" where
  "indicatorQueryParts indicator =
    (let lower = toLowerCase indicator;
         parts = [];
         parts = push_if (str_includes lower ''reentrancy'') ''reentrancy'' parts;
         parts = push_if (str_includes lower ''access-control'' \<or> str_includes lower ''access control'')
                   ''access control'' parts;
         parts = push_if (str_includes lower ''tx.origin'') ''tx.origin phishing'' parts;
         parts = push_if (str_includes lower ''delegatecall'') ''delegatecall'' parts;
         parts = push_if (str_includes lower ''overflow'' \<or> str_includes lower ''underflow'')
                   ''integer overflow'' parts;
         parts = push_if (str_includes lower ''oracle'' \<or> str_includes lower ''price'')
                   ''oracle manipulation'' parts;
         parts = push_if (str_includes lower ''flash'' \<or> str_includes lower ''flashloan'')
                   ''flash loan'' parts;
         parts = push_if (str_includes lower ''random'') ''weak randomness'' parts;
         parts = push_if (str_includes lower ''dos'' \<or> str_includes lower ''denial'')
                   ''denial of service'' parts;
         parts = push_if (str_includes lower ''validation'') ''input validation'' parts;
         parts = push_if (str_includes lower ''logic'') ''logic error'' parts;
         parts = push_if (str_includes lower ''signature'') ''signature'' parts;
         parts = push_if (str_includes lower ''storage'') ''storage'' parts;
         parts = push_if (str_includes lower ''visibility'') ''visibility'' parts;
         parts = push_if (str_includes lower ''selfdestruct'') ''selfdestruct'' parts
     in parts)"

definition vulnerablePatterns :: "string list" where
  "vulnerablePatterns =
     [''withdraw'', ''transfer'', ''burn'', ''mint'', ''approve'', ''setOwner'', ''destroy'',
      ''kill'', ''upgrade'']"

definition patternQueryParts :: "string list \<Rightarrow> string list" where
  "patternQueryParts allFnNames =
     concat (map (\<lambda>pattern.
                    if list_ex (\<lambda>name. str_includes (toLowerCase name) (toLowerCase pattern)) allFnNames
                    then [pattern @ '' vulnerability''] else [])
                 vulnerablePatterns)"

definition indicatorCategories :: "string \<Rightarrow> string list" where
  "indicatorCategories ind =
    (let lower = toLowerCase ind;
         cats = [];
         cats = push_if (str_includes lower ''critical'') ''critical vulnerability'' cats;
         cats = push_if (str_includes lower ''reentrancy'') ''reentrancy attack'' cats;
         cats = push_if (str_includes lower ''access'') ''access control'' cats
     in cats)"

definition queryPartsOf :: "ContractAnalysis \<Rightarrow> bool \<Rightarrow> string list" where
  "queryPartsOf ca comprehensive =
    (let inds = indicators (ca_security ca);
         queryParts = concat (map indicatorQueryParts inds);
         queryParts = queryParts @ ca_protocols ca;
         allFnNames = map ref_name (fns_external (ca_functions ca))
                      @ map ref_name (fns_public (ca_functions ca));
         queryParts = queryParts @ patternQueryParts allFnNames;
         queryParts = (if comprehensive
                       then queryParts @ uniq (concat (map indicatorCategories inds))
                       else queryParts)
     in queryParts)"

definition queriesOf :: "ContractAnalysis \<Rightarrow> bool \<Rightarrow> string list" where
  "queriesOf ca comprehensive =
    (let queryParts = queryPartsOf ca comprehensive;
         primaryQuery = (if length queryParts > 0 then join '' '' queryParts
                         else ''smart contract security vulnerability'')
     in if comprehensive
        then primaryQuery
             # map (\<lambda>ind. substring0 ind 50) (take 3 (indicators (ca_security ca)))
             @ map (\<lambda>p. p @ '' security vulnerability'') (ca_protocols ca)
        else [primaryQuery])"

subsection \<open>Step 2: aggregation over the queries\<close>

record Merged =
  allSwcResults :: "FormattedResult list"
  allExploitResults :: "FormattedResult list"
  allAuditResults :: "FormattedResult list"

definition noneMerged :: Merged where
  "noneMerged = \<lparr>allSwcResults = [], allExploitResults = [], allAuditResults = []\<rparr>"

text \<open>One of the three inner loops: \<open>existingIds\<close> is the set of ids seen, \<open>acc\<close> the list the
  loop pushes to.\<close>

fun mergeResults :: "string list \<Rightarrow> FormattedResult list \<Rightarrow> QueryResult list
                     \<Rightarrow> string list \<times> FormattedResult list" where
  "mergeResults existingIds acc [] = (existingIds, acc)"
| "mergeResults existingIds acc (result # rest) =
     (if qr_id result \<in> set existingIds then mergeResults existingIds acc rest
      else mergeResults (qr_id result # existingIds) (acc @ [formatResult result]) rest)"

text \<open>The body of the loop over the queries, for the answer to one query.\<close>

definition mergeQuery :: "Merged \<Rightarrow> SearchResults \<Rightarrow> Merged" where
  "mergeQuery acc allResults =
    (let existingIds = map fr_id (allSwcResults acc) @ map fr_id (allExploitResults acc)
                       @ map fr_id (allAuditResults acc);
         (existingIds, swc) = mergeResults existingIds (allSwcResults acc) (sr_swc allResults);
         (existingIds, exploits) =
            mergeResults existingIds (allExploitResults acc) (sr_exploits allResults);
         (existingIds, audit) =
            mergeResults existingIds (allAuditResults acc) (sr_auditFindings allResults)
     in \<lparr>allSwcResults = swc, allExploitResults = exploits, allAuditResults = audit\<rparr>)"

fun aggregateQueries :: "env \<Rightarrow> rat \<Rightarrow> string list \<Rightarrow> Merged \<Rightarrow> error + Merged" where
  "aggregateQueries E limit [] acc = Inr acc"
| "aggregateQueries E limit (query # rest) acc =
     (case searchAll E query limit of
        Inl e \<Rightarrow> Inl e
      | Inr allResults \<Rightarrow> aggregateQueries E limit rest (mergeQuery acc allResults))"

definition knowledgeResultsOf :: "rat \<Rightarrow> Merged \<Rightarrow> KnowledgeResults" where
  "knowledgeResultsOf knowledgeLimit m =
     \<lparr>kr_swc = Some (slice0 (allSwcResults m) knowledgeLimit),
      kr_exploits = Some (slice0 (allExploitResults m) knowledgeLimit),
      kr_auditFindings = Some (slice0 (allAuditResults m) knowledgeLimit)\<rparr>"

text \<open>\<^verbatim>\<open>Math.ceil(knowledgeLimit / queries.length)\<close>, the number of rows asked of every
  search.\<close>

definition perQuery :: "rat \<Rightarrow> nat \<Rightarrow> rat" where
  "perQuery knowledgeLimit n = Math_ceil (js_div knowledgeLimit n)"

definition aggregateKnowledge :: "env \<Rightarrow> ContractAnalysis \<Rightarrow> rat \<Rightarrow> bool \<Rightarrow> error + KnowledgeResults" where
  "aggregateKnowledge E ca knowledgeLimit comprehensive =
    (let queries = queriesOf ca comprehensive
     in case aggregateQueries E (perQuery knowledgeLimit (length queries)) queries noneMerged of
          Inl e \<Rightarrow> Inl e
        | Inr m \<Rightarrow> Inr (knowledgeResultsOf knowledgeLimit m))"

subsection \<open>Step 3: similar exploits\<close>

fun probeIndicators :: "env \<Rightarrow> string list \<Rightarrow> error + QueryResult list" where
  "probeIndicators E [] = Inr []"
| "probeIndicators E (indicator # rest) =
     (case findSimilarExploits E indicator 3 of
        Inl e \<Rightarrow> Inl e
      | Inr similar \<Rightarrow>
          (case probeIndicators E rest of
             Inl e \<Rightarrow> Inl e
           | Inr others \<Rightarrow> Inr (similar @ others)))"

text \<open>The \<^verbatim>\<open>Map\<close> keyed by id, filled only where the key is new and read back in
  insertion order.\<close>

fun uniqueById_from :: "string list \<Rightarrow> QueryResult list \<Rightarrow> QueryResult list" where
  "uniqueById_from seen [] = []"
| "uniqueById_from seen (r # rs) =
     (if qr_id r \<in> set seen then uniqueById_from seen rs
      else r # uniqueById_from (qr_id r # seen) rs)"

definition uniqueById :: "QueryResult list \<Rightarrow> QueryResult list" where
  "uniqueById rs = uniqueById_from [] rs"

text \<open>Doubling a double is exact; where the program's product is an infinity, the
  model's is a rational that stands for it.\<close>

definition findSimilar :: "env \<Rightarrow> string \<Rightarrow> ContractAnalysis \<Rightarrow> rat \<Rightarrow> bool \<Rightarrow> error + SimilarExploit list" where
  "findSimilar E content ca knowledgeLimit comprehensive =
     (case findSimilarExploits E content
             (if comprehensive then knowledgeLimit * 2 else knowledgeLimit) of
        Inl e \<Rightarrow> Inl e
      | Inr similarFromCode \<Rightarrow>
          (case (if comprehensive \<and> length (indicators (ca_security ca)) > 0
                 then probeIndicators E (take 3 (indicators (ca_security ca)))
                 else Inr []) of
             Inl e \<Rightarrow> Inl e
           | Inr similarFromIndicators \<Rightarrow>
               Inr (map similarExploitOf
                      (slice0 (uniqueById (similarFromCode @ similarFromIndicators))
                         (knowledgeLimit * 2)))))"

subsection \<open>Step 4: recommendations\<close>

text \<open>The marks that open the messages.\<close>

definition icon_warning :: string where
  "icon_warning = [CHR 0xE2, CHR 0x9A, CHR 0xA0, CHR 0xEF, CHR 0xB8]"

definition icon_red :: string where
  "icon_red = [CHR 0xF0, CHR 0x9F, CHR 0x94, CHR 0xB4]"

definition icon_books :: string where
  "icon_books = [CHR 0xF0, CHR 0x9F, CHR 0x93, CHR 0x9A]"

definition icon_clipboard :: string where
  "icon_clipboard = [CHR 0xF0, CHR 0x9F, CHR 0x93, CHR 0x8B]"

definition icon_check :: string where
  "icon_check = [CHR 0xE2, CHR 0x9C, CHR 0x85]"

definition fallbackRecommendation :: string where
  "fallbackRecommendation =
     icon_check @ '' No immediate security issues detected, but always perform thorough review''"

definition indicatorRecommendations :: "string \<Rightarrow> string list" where
  \<comment> \<open>the body of the \<^verbatim>\<open>forEach\<close> over the indicators\<close>
  "indicatorRecommendations indicator =
     (if str_includes indicator ''reentrancy''
      then [icon_red @ '' CRITICAL: Implement checks-effects-interactions pattern'',
            icon_red @ '' CRITICAL: Add reentrancy guard to all external calls'']
      else [])
     @ (if str_includes indicator ''tx.origin''
        then [icon_red @ '' CRITICAL: Replace tx.origin with msg.sender for authorization'']
        else [])
     @ (if str_includes indicator ''delegatecall''
        then [icon_red @ '' CRITICAL: Validate delegatecall target addresses'']
        else [])"

definition hasCategory :: "SimilarExploit list \<Rightarrow> string \<Rightarrow> bool" where
  \<comment> \<open>\<^verbatim>\<open>new Set(exploits.map(e => e.category)).has(c)\<close>\<close>
  "hasCategory exploits c = (Some (JStr c) \<in> set (map se_category exploits))"

definition sourceOrUnknown :: "SimilarExploit \<Rightarrow> jsval option" where
  \<comment> \<open>\<^verbatim>\<open>e.source || "unknown"\<close>\<close>
  "sourceOrUnknown e = (if truthy (se_source e) then se_source e else Some (JStr ''unknown''))"

definition hasSource :: "SimilarExploit list \<Rightarrow> string \<Rightarrow> bool" where
  "hasSource exploits src = (Some (JStr src) \<in> set (map sourceOrUnknown exploits))"

definition exploitRecommendations :: "SimilarExploit list \<Rightarrow> string list" where
  "exploitRecommendations exploits =
     (if hasCategory exploits ''reentrancy''
      then (let reentrancyExploits = filter (\<lambda>e. se_category e = Some (JStr ''reentrancy'')) exploits
            in [icon_books @ '' '' @ show_nat (length reentrancyExploits)
                  @ '' similar reentrancy exploits found from ''
                  @ join '', '' (map js_joinItem (uniq (map se_source reentrancyExploits)))
                  @ '' - review historical attacks'',
                icon_books @ '' Implement checks-effects-interactions pattern''])
      else [])
     @ (if hasCategory exploits ''flash-loan''
        then [icon_books @ '' Implement flash loan attack protections'',
              icon_books @ '' Use TWAP oracles instead of spot prices'',
              icon_books @ '' Add slippage protection for all swaps'']
        else [])
     @ (if hasCategory exploits ''oracle-manipulation''
        then [icon_books @ '' Use multiple oracle sources for price feeds'',
              icon_books @ '' Implement price deviation checks'',
              icon_books @ '' Add time-weighted average price (TWAP) protection'']
        else [])
     @ (if hasCategory exploits ''access-control''
        then [icon_books @ '' Review all privileged functions for proper access control'',
              icon_books @ '' Use role-based access control (OpenZeppelin AccessControl)'']
        else [])
     @ (if hasCategory exploits ''logic-error''
        then [icon_books @ '' Review contract logic for edge cases'',
              icon_books @ '' Add comprehensive unit tests'']
        else [])
     @ (if hasCategory exploits ''integer-overflow''
        then [icon_books @ '' Use SafeMath or Solidity 0.8+ for arithmetic operations'']
        else [])
     @ (if hasSource exploits ''DeFiHackLabs''
        then [icon_books @ '' DeFiHackLabs exploits matched - review real-world attack patterns'']
        else [])
     @ (if hasSource exploits ''learn-evm-attacks''
        then [icon_books
              @ '' learn-evm-attacks exploits matched - review educational attack reproductions'']
        else [])"

definition hasSeverity :: "string \<Rightarrow> FormattedResult \<Rightarrow> bool" where
  \<comment> \<open>\<^verbatim>\<open>s.metadata?.severity === sev\<close>\<close>
  "hasSeverity sev s = (mget (fr_metadata s) ''severity'' = Some (JStr sev))"

definition swcCategoryOf :: "FormattedResult \<Rightarrow> jsval option" where
  \<comment> \<open>\<^verbatim>\<open>s.metadata?.swc_id || s.id\<close>\<close>
  "swcCategoryOf s =
     (if truthy (mget (fr_metadata s) ''swc_id'') then mget (fr_metadata s) ''swc_id''
      else Some (JStr (fr_id s)))"

definition swcMatches :: "jsval option list \<Rightarrow> string \<Rightarrow> string \<Rightarrow> bool" where
  \<comment> \<open>\<^verbatim>\<open>swcCategories.has(full) || Array.from(swcCategories).some(id => String(id).includes(num))\<close>\<close>
  "swcMatches swcCategories full num =
     (Some (JStr full) \<in> set swcCategories
      \<or> list_ex (\<lambda>v. str_includes (js_toString v) num) swcCategories)"

definition swcRecommendations :: "FormattedResult list \<Rightarrow> string list" where
  "swcRecommendations swcResults =
     (if length swcResults > 0
      then (let criticalSWC = filter (hasSeverity ''critical'') swcResults;
                highSWC = filter (hasSeverity ''high'') swcResults;
                swcCategories = uniq (map swcCategoryOf swcResults)
            in (if length criticalSWC > 0
                then [icon_clipboard @ '' '' @ show_nat (length criticalSWC)
                      @ '' critical SWC/Attack Vector entries matched - review carefully'']
                else [])
               @ (if length highSWC > 0
                  then [icon_clipboard @ '' '' @ show_nat (length highSWC)
                        @ '' high severity SWC/Attack Vector entries matched'']
                  else [])
               @ (if swcMatches swcCategories ''SWC-107'' ''107''
                  then [icon_clipboard @ '' SWC-107 (Reentrancy) matched - implement reentrancy guards'']
                  else [])
               @ (if swcMatches swcCategories ''SWC-105'' ''105''
                  then [icon_clipboard
                        @ '' SWC-105 (Unprotected Ether Withdrawal) matched - add access control'']
                  else []))
      else [])"

definition swcOf :: "KnowledgeResults \<Rightarrow> FormattedResult list" where
  \<comment> \<open>\<^verbatim>\<open>knowledgeResults.swc as any[] || []\<close>\<close>
  "swcOf kr = (case kr_swc kr of None \<Rightarrow> [] | Some rs \<Rightarrow> rs)"

definition generateRecommendations ::
    "ContractAnalysis \<Rightarrow> KnowledgeResults \<Rightarrow> SimilarExploit list \<Rightarrow> string list" where
  "generateRecommendations contractAnalysis knowledgeResults similarExploits =
    (let recommendations = [];
         recommendations = push_if (\<not> hasReentrancyGuard (ca_security contractAnalysis))
           (icon_warning @ '' Add reentrancy protection (ReentrancyGuard or nonReentrant modifier)'')
           recommendations;
         recommendations = push_if (\<not> hasAccessControl (ca_security contractAnalysis))
           (icon_warning
            @ '' Implement access control for privileged functions (onlyOwner or AccessControl)'')
           recommendations;
         recommendations = recommendations
           @ concat (map indicatorRecommendations (indicators (ca_security contractAnalysis)));
         recommendations = recommendations @ exploitRecommendations similarExploits;
         recommendations = recommendations @ swcRecommendations (swcOf knowledgeResults);
         recommendations = push_if (length recommendations = 0) fallbackRecommendation recommendations
     in uniq recommendations)"

subsection \<open>Step 5: risk assessment\<close>

record RiskAssessment =
  level :: string
  score :: nat
  factors :: "string list"

definition levelOf :: "nat \<Rightarrow> string" where
  "levelOf sc =
     (if sc \<ge> 70 then ''CRITICAL''
      else if sc \<ge> 50 then ''HIGH''
      else if sc \<ge> 30 then ''MEDIUM''
      else if sc \<ge> 10 then ''LOW''
      else ''INFO'')"

text \<open>The function keeps a running \<open>(score, factors)\<close>; \<open>bump\<close> is one
  \<^verbatim>\<open>if (cond) { score += n; factors.push(msg); }\<close>.\<close>

definition bump :: "bool \<Rightarrow> nat \<Rightarrow> string \<Rightarrow> nat \<times> string list \<Rightarrow> nat \<times> string list" where
  "bump cond n msg st = (if cond then (fst st + n, snd st @ [msg]) else st)"

definition assessRisk ::
    "ContractAnalysis \<Rightarrow> KnowledgeResults \<Rightarrow> SimilarExploit list \<Rightarrow> RiskAssessment" where
  "assessRisk contractAnalysis knowledgeResults similarExploits =
    (let sec = ca_security contractAnalysis;
         st = (0, []);
         st = (fst st + critical (severityBreakdown sec) * 30, snd st);
         st = (fst st + high (severityBreakdown sec) * 20, snd st);
         st = (fst st + medium (severityBreakdown sec) * 10, snd st);
         st = (fst st + low (severityBreakdown sec) * 5, snd st);
         st = bump (\<not> hasReentrancyGuard sec) 30 ''Missing reentrancy protection'' st;
         st = bump (\<not> hasAccessControl sec) 20 ''Missing access control'' st;
         st = bump (hasOutdatedCompiler (ca_metadata contractAnalysis)) 25
                ''Outdated Solidity compiler version'' st;
         st = bump (hasFloatingPragma (ca_metadata contractAnalysis)) 15
                ''Floating pragma - non-deterministic compilation'' st;
         privileged = length (privilegedFunctionsWithoutAccessControl sec);
         st = bump (privileged > 0) (privileged * 15)
                (show_nat privileged @ '' privileged functions without access control'') st;
         exploits = length similarExploits;
         st = bump (exploits > 0) (exploits * 5)
                (show_nat exploits @ '' similar historical exploits found'') st;
         criticalSWC = length (filter (hasSeverity ''critical'') (swcOf knowledgeResults));
         st = bump (criticalSWC > 0) (criticalSWC * 15)
                (show_nat criticalSWC @ '' critical SWC entries matched'') st
     in \<lparr>level = levelOf (fst st), score = fst st, factors = snd st\<rparr>)"

subsection \<open>The handler\<close>

text \<open>The input of the tool.  \<^verbatim>\<open>knowledgeLimit\<close> is a number (default 10): the schema
  asks for \<^verbatim>\<open>z.number()\<close> and for nothing more, so it may be negative or have a
  fraction.\<close>

record Options =
  opt_path :: string
  includeKnowledgeBase :: bool
  knowledgeLimit :: rat
  includeSimilarExploits :: bool
  useExternalTools :: bool
  comprehensiveMode :: bool

record KnowledgeSection =
  kb_queries :: KnowledgeResults
  kb_similarExploits :: "SimilarExploit list"
  kb_sourcesUsed :: "jsval option list"

record AnalysisMode =
  am_comprehensive :: bool
  am_knowledgeBaseEnabled :: bool
  am_externalToolsEnabled :: bool
  am_similarExploitsEnabled :: bool

record TotalSources =
  ts_swcRegistry :: nat
  ts_exploits :: nat
  ts_auditFindings :: nat
  ts_similarExploits :: nat
  ts_exploitSources :: "jsval option list"

record ReportSummary =
  totalFindings :: nat
  criticalIssues :: nat
  highIssues :: nat
  mediumIssues :: nat
  lowIssues :: nat
  similarExploitsFound :: nat
  knowledgeBaseMatches :: nat
  externalToolsUsed :: nat
  totalSources :: "TotalSources option"

record Report =
  rep_contract :: ContractAnalysis
  rep_externalTools :: "(string \<times> ToolReport) list"
  rep_knowledgeBase :: "KnowledgeSection option"
  rep_riskAssessment :: RiskAssessment
  rep_recommendations :: "string list"
  rep_analysisMode :: AnalysisMode
  rep_summary :: ReportSummary

text \<open>\<^verbatim>\<open>jsonResponse(data)\<close> and \<^verbatim>\<open>errorResponse(msg, details)\<close> of \<^verbatim>\<open>core/types.ts\<close>;
  the latter is the one with \<^verbatim>\<open>isError\<close> set.\<close>

datatype response =
    JsonResponse Report
  | ErrorResponse string "(string \<times> string) list"

definition lengthOrZero :: "'a list option \<Rightarrow> nat" where
  \<comment> \<open>\<^verbatim>\<open>Array.isArray(x) ? x.length : 0\<close>\<close>
  "lengthOrZero x = (case x of None \<Rightarrow> 0 | Some xs \<Rightarrow> length xs)"

definition exploitSourcesOf :: "SimilarExploit list \<Rightarrow> KnowledgeResults \<Rightarrow> jsval option list" where
  "exploitSourcesOf similarExploits knowledgeResults =
     uniq (filter truthy (map se_source similarExploits)
           @ (case kr_exploits knowledgeResults of
                None \<Rightarrow> []
              | Some exps \<Rightarrow> filter truthy (map (\<lambda>exp. mget (fr_metadata exp) ''source'') exps)))"

definition toolUsed :: "ToolReport \<Rightarrow> bool" where
  "toolUsed t =
     (tr_available t \<and> (tr_status t = Some ''completed'' \<or> tr_status t = Some ''passed''))"

text \<open>Step 2 and step 3 together: what the handler holds in \<^verbatim>\<open>knowledgeResults\<close> and
  \<^verbatim>\<open>similarExploits\<close> when it reaches step 4, or the error thrown on the way.\<close>

definition knowledgeStage ::
    "env \<Rightarrow> Options \<Rightarrow> string \<Rightarrow> ContractAnalysis \<Rightarrow> error + KnowledgeResults \<times> SimilarExploit list" where
  "knowledgeStage E opts content ca =
     (if includeKnowledgeBase opts
      then (case aggregateKnowledge E ca (knowledgeLimit opts) (comprehensiveMode opts) of
              Inl e \<Rightarrow> Inl e
            | Inr knowledgeResults \<Rightarrow>
                if includeSimilarExploits opts
                then (case findSimilar E content ca (knowledgeLimit opts) (comprehensiveMode opts) of
                        Inl e \<Rightarrow> Inl e
                      | Inr similarExploits \<Rightarrow> Inr (knowledgeResults, similarExploits))
                else Inr (knowledgeResults, []))
      else Inr (noKnowledge, []))"

definition assemble ::
    "Options \<Rightarrow> ContractAnalysis \<Rightarrow> (string \<times> ToolReport) list \<Rightarrow> KnowledgeResults
     \<Rightarrow> SimilarExploit list \<Rightarrow> Report" where
  "assemble opts contractAnalysis externalTools knowledgeResults similarExploits =
    (let recommendations = generateRecommendations contractAnalysis knowledgeResults similarExploits;
         riskLevel = assessRisk contractAnalysis knowledgeResults similarExploits;
         exploitSources = exploitSourcesOf similarExploits knowledgeResults;
         sb = severityBreakdown (ca_security contractAnalysis)
     in \<lparr>rep_contract = contractAnalysis,
         rep_externalTools = externalTools,
         rep_knowledgeBase =
           (if includeKnowledgeBase opts
            then Some \<lparr>kb_queries = knowledgeResults, kb_similarExploits = similarExploits,
                       kb_sourcesUsed = exploitSources\<rparr>
            else None),
         rep_riskAssessment =
           \<lparr>level = level riskLevel, score = score riskLevel, factors = factors riskLevel\<rparr>,
         rep_recommendations = recommendations,
         rep_analysisMode =
           \<lparr>am_comprehensive = comprehensiveMode opts,
            am_knowledgeBaseEnabled = includeKnowledgeBase opts,
            am_externalToolsEnabled = useExternalTools opts,
            am_similarExploitsEnabled = includeSimilarExploits opts\<rparr>,
         rep_summary =
           \<lparr>totalFindings = length (indicators (ca_security contractAnalysis)),
            criticalIssues = critical sb,
            highIssues = high sb,
            mediumIssues = medium sb,
            lowIssues = low sb,
            similarExploitsFound = length similarExploits,
            knowledgeBaseMatches =
              (if includeKnowledgeBase opts
               then lengthOrZero (kr_exploits knowledgeResults) + lengthOrZero (kr_swc knowledgeResults)
                    + lengthOrZero (kr_auditFindings knowledgeResults)
               else 0),
            externalToolsUsed = length (filter (\<lambda>kv. toolUsed (snd kv)) externalTools),
            totalSources =
              (if includeKnowledgeBase opts
               then Some \<lparr>ts_swcRegistry = lengthOrZero (kr_swc knowledgeResults),
                          ts_exploits = lengthOrZero (kr_exploits knowledgeResults),
                          ts_auditFindings = lengthOrZero (kr_auditFindings knowledgeResults),
                          ts_similarExploits = length similarExploits,
                          ts_exploitSources = exploitSources\<rparr>
               else None)\<rparr>\<rparr>)"

text \<open>The body of the \<^verbatim>\<open>try\<close> block after the existence check; \<open>Inl\<close> is a \<^verbatim>\<open>throw\<close>
  that reaches the \<^verbatim>\<open>catch\<close>.\<close>

definition analysisBody :: "env \<Rightarrow> string \<Rightarrow> Options \<Rightarrow> error + Report" where
  "analysisBody E here opts =
     (case readFile E (opt_path opts) of
        Inl e \<Rightarrow> Inl e
      | Inr content \<Rightarrow>
     (case getFileInfo E (opt_path opts) of
        Inl e \<Rightarrow> Inl e
      | Inr info \<Rightarrow>
          (let contractAnalysis = contractAnalysisOf info content;
               externalTools = runExternalTools E here (opt_path opts) (useExternalTools opts)
                                 (comprehensiveMode opts)
           in case knowledgeStage E opts content contractAnalysis of
                Inl e \<Rightarrow> Inl e
              | Inr (knowledgeResults, similarExploits) \<Rightarrow>
                  Inr (assemble opts contractAnalysis externalTools knowledgeResults
                         similarExploits))))"

definition comprehensive_analysis :: "env \<Rightarrow> string \<Rightarrow> Options \<Rightarrow> response" where
  "comprehensive_analysis E here opts =
     (if \<not> fs_exists E (opt_path opts)
      then ErrorResponse ''File not found'' [(''path'', opt_path opts)]
      else (case analysisBody E here opts of
              Inr report \<Rightarrow> JsonResponse report
            | Inl e \<Rightarrow> ErrorResponse ''Analysis failed'' [(''error'', error_string e)]))"

section \<open>Vocabulary of the statements\<close>

text \<open>
  The three inner loops of the aggregation visit the rows of the answers in one order:
  query by query, and within a query the rows for \<^verbatim>\<open>swc\<close>, then \<^verbatim>\<open>exploits\<close>, then
  \<^verbatim>\<open>auditFindings\<close>.  \<open>rowsOf\<close> is the rows of one answer in that order, each tagged with
  its collection; \<open>firstSeen\<close> keeps, of a run of tagged rows, every row whose id no
  earlier row has.
\<close>

datatype coll = InSwc | InExploits | InAudit

definition rowsOf :: "SearchResults \<Rightarrow> (coll \<times> QueryResult) list" where
  "rowsOf r = map (Pair InSwc) (sr_swc r) @ map (Pair InExploits) (sr_exploits r)
              @ map (Pair InAudit) (sr_auditFindings r)"

fun firstSeen_from :: "string list \<Rightarrow> (coll \<times> QueryResult) list \<Rightarrow> (coll \<times> QueryResult) list" where
  "firstSeen_from seen [] = []"
| "firstSeen_from seen (x # xs) =
     (if qr_id (snd x) \<in> set seen then firstSeen_from seen xs
      else x # firstSeen_from (qr_id (snd x) # seen) xs)"

definition firstSeen :: "(coll \<times> QueryResult) list \<Rightarrow> (coll \<times> QueryResult) list" where
  "firstSeen xs = firstSeen_from [] xs"

definition pick :: "coll \<Rightarrow> (coll \<times> QueryResult) list \<Rightarrow> FormattedResult list" where
  \<comment> \<open>the rows of one collection, formatted\<close>
  "pick c xs = map (\<lambda>x. formatResult (snd x)) (filter (\<lambda>x. fst x = c) xs)"

definition allIds :: "Merged \<Rightarrow> string list" where
  \<comment> \<open>what the loop puts into \<^verbatim>\<open>existingIds\<close> at the start of a round\<close>
  "allIds m = map fr_id (allSwcResults m) @ map fr_id (allExploitResults m)
              @ map fr_id (allAuditResults m)"

definition rowIds :: "(coll \<times> QueryResult) list \<Rightarrow> string list" where
  "rowIds xs = map (\<lambda>x. qr_id (snd x)) xs"

text \<open>The answers to the queries of a run, in order, when every search succeeds.\<close>

fun searchEach :: "env \<Rightarrow> rat \<Rightarrow> string list \<Rightarrow> error + SearchResults list" where
  "searchEach E limit [] = Inr []"
| "searchEach E limit (query # rest) =
     (case searchAll E query limit of
        Inl e \<Rightarrow> Inl e
      | Inr r \<Rightarrow> (case searchEach E limit rest of Inl e \<Rightarrow> Inl e | Inr rs \<Rightarrow> Inr (r # rs)))"

text \<open>Entry \<open>e\<close> of collection \<open>c\<close> was produced by the first query that returned its id:
  some query returned, for \<open>c\<close>, a row that formats to \<open>e\<close>, and no query before it
  returned a row with that id for any collection.\<close>

definition firstReturned :: "SearchResults list \<Rightarrow> coll \<Rightarrow> FormattedResult \<Rightarrow> bool" where
  "firstReturned rs c e =
     list_ex (\<lambda>i. list_ex (\<lambda>x. fst x = c \<and> e = formatResult (snd x)) (rowsOf (rs ! i))
                   \<and> list_all (\<lambda>j. fr_id e \<notin> set (rowIds (rowsOf (rs ! j)))) [0..<i])
             [0..<length rs]"

text \<open>No condition of the recommendation generator on the similar exploits, or on the
  weakness-classification matches, holds.\<close>

definition quietExploits :: "SimilarExploit list \<Rightarrow> bool" where
  "quietExploits sims =
     (list_all (\<lambda>c. \<not> hasCategory sims c)
        [''reentrancy'', ''flash-loan'', ''oracle-manipulation'', ''access-control'',
         ''logic-error'', ''integer-overflow'']
      \<and> \<not> hasSource sims ''DeFiHackLabs'' \<and> \<not> hasSource sims ''learn-evm-attacks'')"

definition quietSwc :: "FormattedResult list \<Rightarrow> bool" where
  "quietSwc swcResults =
     (swcResults = []
      \<or> (filter (hasSeverity ''critical'') swcResults = []
          \<and> filter (hasSeverity ''high'') swcResults = []
          \<and> \<not> swcMatches (uniq (map swcCategoryOf swcResults)) ''SWC-107'' ''107''
          \<and> \<not> swcMatches (uniq (map swcCategoryOf swcResults)) ''SWC-105'' ''105''))"

text \<open>The similarity search as the specification words it: probe (a), the source text
  with capacity \<open>limit * 2\<close>; probe (b), each of the first three indicators with capacity
  3; the union, deduplicated by id with the first occurrence kept, capped at \<open>limit * 2\<close>
  entries and projected.  A list capped at \<open>n\<close> entries is its first \<open>n\<close>, and the whole
  list when it has no more.\<close>

definition capAt :: "rat \<Rightarrow> 'a list \<Rightarrow> 'a list" where
  "capAt n xs = take (nat \<lfloor>n\<rfloor>) xs"

definition findSimilar_spec :: "env \<Rightarrow> string \<Rightarrow> string list \<Rightarrow> rat \<Rightarrow> error + SimilarExploit list" where
  "findSimilar_spec E sourceText inds limit =
     (case findSimilarExploits E sourceText (limit * 2) of
        Inl e \<Rightarrow> Inl e
      | Inr fromSource \<Rightarrow>
          (case probeIndicators E (take 3 inds) of
             Inl e \<Rightarrow> Inl e
           | Inr fromIndicators \<Rightarrow>
               Inr (map similarExploitOf
                      (capAt (limit * 2) (uniqueById (fromSource @ fromIndicators))))))"












section \<open>Sample inputs\<close>

definition sampleInfo :: FileInfo where
  "sampleInfo = \<lparr>fi_path = ''V.sol'', fi_name = ''V.sol'', fi_size = 0, fi_lines = 1\<rparr>"

text \<open>A machine where the file \<^verbatim>\<open>V.sol\<close> holds the text \<^verbatim>\<open>tx.origin\<close>, \<^verbatim>\<open>solhint\<close> is the
  one tool installed and exits with status 2 after printing a line, and every query to
  the vector database fails, with an error that names the collection; the query to
  \<^verbatim>\<open>audit_findings\<close> fails first, the one to \<^verbatim>\<open>exploits\<close> last.\<close>

definition sampleEnv :: env where
  "sampleEnv =
     \<lparr>existsSync = (\<lambda>p. p = ''V.sol''),
      statSize = (\<lambda>p. 9),
      readFileSync = (\<lambda>p. Inr ''tx.origin''),
      basename = (\<lambda>p. p),
      dirname = (\<lambda>p. ''.''),
      which = (\<lambda>tool. tool = ''solhint''),
      execSync = (\<lambda>full cwd timeout. Threw (Some ''1 problem'') None (Some 2) ''Command failed'' 7),
      vectorDbQuery = (\<lambda>collection text n wh.
                         Inl (ExternalError (''Error: no collection '' @ collection))),
      answerTime = (\<lambda>collection text n wh.
                      if collection = AUDIT_FINDINGS then 10
                      else if collection = SWC then 20 else 30)\<rparr>"

text \<open>A vector database that answers.  For \<^verbatim>\<open>swc_registry\<close> it has one row, \<^verbatim>\<open>SWC-107\<close>, nearer
  to a query that holds \<^verbatim>\<open>CRITICAL\<close>; for \<^verbatim>\<open>exploits\<close> two rows, the first with the id
  \<^verbatim>\<open>SWC-107\<close> as well; for \<^verbatim>\<open>audit_findings\<close> none.\<close>

definition sampleSwcRow :: "rat \<Rightarrow> QueryResult" where
  "sampleSwcRow d =
     \<lparr>qr_id = ''SWC-107'', qr_document = ''Reentrancy'',
      qr_metadata = [(''swc_id'', JStr ''SWC-107''), (''severity'', JStr ''critical'')],
      qr_distance = d\<rparr>"

definition sampleExploitRows :: "QueryResult list" where
  "sampleExploitRows =
     [\<lparr>qr_id = ''SWC-107'', qr_document = ''Reentrancy write-up'',
       qr_metadata = [(''category'', JStr ''reentrancy''), (''source'', JStr ''builtin'')],
       qr_distance = 3 / 10\<rparr>,
      \<lparr>qr_id = ''dao-2016'', qr_document = ''The DAO'',
       qr_metadata = [(''category'', JStr ''reentrancy''), (''source'', JStr ''DeFiHackLabs'')],
       qr_distance = 2 / 5\<rparr>]"

definition sampleKb :: "string \<Rightarrow> string \<Rightarrow> rat \<Rightarrow> (string \<times> string) option \<Rightarrow> error + QueryResult list" where
  "sampleKb collection text n wh =
     (if collection = SWC
      then Inr (take (nat \<lfloor>n\<rfloor>)
                  [sampleSwcRow (if str_includes text ''CRITICAL'' then 1 / 4 else 1 / 2)])
      else if collection = EXPLOITS then Inr (take (nat \<lfloor>n\<rfloor>) sampleExploitRows)
      else Inr [])"

definition sampleKbEnv :: env where
  "sampleKbEnv = sampleEnv\<lparr>vectorDbQuery := sampleKb\<rparr>"

text \<open>A vector database that answers every query to \<^verbatim>\<open>audit_findings\<close> with the same
  three rows, whatever the number of rows asked for, and has nothing else.\<close>

definition sampleAuditRows :: "QueryResult list" where
  "sampleAuditRows =
     [\<lparr>qr_id = ''A-1'', qr_document = ''Unchecked call'', qr_metadata = [], qr_distance = 1 / 4\<rparr>,
      \<lparr>qr_id = ''A-2'', qr_document = ''Missing event'', qr_metadata = [], qr_distance = 1 / 2\<rparr>,
      \<lparr>qr_id = ''A-3'', qr_document = ''Shadowing'', qr_metadata = [], qr_distance = 3 / 4\<rparr>]"

definition sampleAuditEnv :: env where
  "sampleAuditEnv =
     sampleEnv\<lparr>vectorDbQuery :=
       (\<lambda>collection text n wh. if collection = AUDIT_FINDINGS then Inr sampleAuditRows else Inr [])\<rparr>"

definition sampleAnalysis :: ContractAnalysis where
  "sampleAnalysis = contractAnalysisOf sampleInfo ''tx.origin''"

text \<open>The options of a call with every default.\<close>

definition sampleOptions :: Options where
  "sampleOptions =
     \<lparr>opt_path = ''V.sol'', includeKnowledgeBase = True, knowledgeLimit = 10,
      includeSimilarExploits = True, useExternalTools = True, comprehensiveMode = True\<rparr>"

section \<open>The heuristic indicator scan\<close>

lemma foldl_push_if:
  "foldl (\<lambda>indicators (cond, msg). push_if cond msg indicators) acc ps
     = acc @ map snd (filter fst ps)"
  by (induction ps arbitrary: acc) (auto simp: push_if_def)

lemma scan_fired:
  "checkVulnerabilityIndicators src = map snd (filter fst (indicatorChecks src))"
  by (simp add: checkVulnerabilityIndicators_def foldl_push_if)

lemma indicatorChecks_messages: "map snd (indicatorChecks src) = indicatorTable"
  by (simp add: indicatorChecks_def indicatorTable_def Let_def)

lemma subseq_map_filter: "subseq (map f (filter P xs)) (map f xs)"
  by (induction xs) auto

lemma scan_subseq: "subseq (checkVulnerabilityIndicators src) indicatorTable"
  unfolding scan_fired indicatorChecks_messages [of src, symmetric]
  by (rule subseq_map_filter)


lemma scan_empty_iff:
  "(checkVulnerabilityIndicators src = []) = list_all (\<lambda>c. \<not> fst c) (indicatorChecks src)"
  unfolding scan_fired by (simp add: filter_empty_conv list_all_iff)

text \<open>
  Claim C8.  The scan is a function of the source text alone, defined on every text: no
  statement of \<^verbatim>\<open>checkVulnerabilityIndicators\<close> can raise (each is a substring test, a
  search with a constant expression, or a push), and it reads nothing but its argument.
  Its result is the messages of the checks that hold, in the fixed order of the checks;
  it is the empty list exactly when no check holds; equal texts give equal lists.
\<close>

theorem scan_pure_total:
  "checkVulnerabilityIndicators src = map snd (filter fst (indicatorChecks src))
   \<and> subseq (checkVulnerabilityIndicators src) indicatorTable
   \<and> (checkVulnerabilityIndicators src = []) = list_all (\<lambda>c. \<not> fst c) (indicatorChecks src)
   \<and> (\<forall>src'. src' = src \<longrightarrow> checkVulnerabilityIndicators src' = checkVulnerabilityIndicators src)"
  using scan_fired scan_subseq scan_empty_iff by simp

text \<open>A text that is no Solidity at all gives the empty list; a text with one signature
  gives that one indicator.\<close>

theorem scan_pure_total_witness:
  "checkVulnerabilityIndicators ''}{)(*&^%$'' = []
   \<and> checkVulnerabilityIndicators ''tx.origin''
       = [''CRITICAL: tx.origin usage - vulnerable to phishing attacks'']"
proof -
  have a: "list_all (\<lambda>c. \<not> fst c) (indicatorChecks ''}{)(*&^%$'')"
    by code_simp
  have b: "map snd (filter fst (indicatorChecks ''tx.origin''))
             = [''CRITICAL: tx.origin usage - vulnerable to phishing attacks'']"
    by code_simp
  have "checkVulnerabilityIndicators ''}{)(*&^%$'' = []"
    using scan_pure_total [of "''}{)(*&^%$''"] a by blast
  moreover have "checkVulnerabilityIndicators ''tx.origin''
                   = [''CRITICAL: tx.origin usage - vulnerable to phishing attacks'']"
    using scan_pure_total [of "''tx.origin''"] b by metis
  ultimately show ?thesis by blast
qed



section \<open>The risk scorer\<close>



lemma assessRisk_level: "level (assessRisk ca kr sims) = levelOf (score (assessRisk ca kr sims))"
  by (simp add: assessRisk_def Let_def)

text \<open>
  Claim C4.  The level of a risk assessment is the threshold bucket of its score: at least
  70 is CRITICAL, from 50 up to 69 HIGH, from 30 up to 49 MEDIUM, from 10 up to 29 LOW, and
  below 10 INFO.  At the boundaries: 70 is CRITICAL, 69 and 50 are HIGH, 49 and 30 are
  MEDIUM, 29 and 10 are LOW, 9 is INFO.
\<close>

theorem risk_level_buckets:
  "(70 \<le> score (assessRisk ca kr sims) \<longrightarrow> level (assessRisk ca kr sims) = ''CRITICAL'')
   \<and> (50 \<le> score (assessRisk ca kr sims) \<and> score (assessRisk ca kr sims) < 70
        \<longrightarrow> level (assessRisk ca kr sims) = ''HIGH'')
   \<and> (30 \<le> score (assessRisk ca kr sims) \<and> score (assessRisk ca kr sims) < 50
        \<longrightarrow> level (assessRisk ca kr sims) = ''MEDIUM'')
   \<and> (10 \<le> score (assessRisk ca kr sims) \<and> score (assessRisk ca kr sims) < 30
        \<longrightarrow> level (assessRisk ca kr sims) = ''LOW'')
   \<and> (score (assessRisk ca kr sims) < 10 \<longrightarrow> level (assessRisk ca kr sims) = ''INFO'')
   \<and> levelOf 70 = ''CRITICAL'' \<and> levelOf 69 = ''HIGH'' \<and> levelOf 50 = ''HIGH''
   \<and> levelOf 49 = ''MEDIUM'' \<and> levelOf 30 = ''MEDIUM'' \<and> levelOf 29 = ''LOW''
   \<and> levelOf 10 = ''LOW'' \<and> levelOf 9 = ''INFO''"
  unfolding assessRisk_level by (simp add: levelOf_def)

text \<open>An empty source file has neither guard signature and nothing else: its score is 50,
  and the level is HIGH.\<close>

theorem risk_level_buckets_witness:
  "score (assessRisk (contractAnalysisOf sampleInfo []) noKnowledge []) = 50
   \<and> level (assessRisk (contractAnalysisOf sampleInfo []) noKnowledge []) = ''HIGH''"
proof -
  have s: "score (assessRisk (contractAnalysisOf sampleInfo []) noKnowledge []) = 50"
    by code_simp
  from risk_level_buckets [of "contractAnalysisOf sampleInfo []" noKnowledge "[]"] s
  show ?thesis by simp
qed



section \<open>The external tool runner\<close>

text \<open>
  Claim C9.  \<^verbatim>\<open>executeCommand\<close> raises \<^verbatim>\<open>ToolNotFoundError\<close> when the tool is not installed.
  For an installed tool it returns a result with exit code 0 when the process succeeds;
  when the process fails it raises \<^verbatim>\<open>ToolExecutionError\<close> if the failure carries no
  standard output or an empty one, and otherwise returns a result holding that output,
  the error's standard error, the time taken and an exit code: the exit status of the
  process when it is not zero, and 1 when the failure has none (a timeout, a signal) or
  has zero.  So a call either raises one of the two errors or returns a result.
\<close>

theorem executeCommand_outcomes:
  "(\<not> which E cmd \<longrightarrow>
      executeCommand E here cmd args opts = Inl (ToolNotFoundError cmd (getInstallHint cmd)))
   \<and> (which E cmd
        \<and> execSync E (cmd @ '' '' @ join '' '' args)
             (case opt_cwd opts of None \<Rightarrow> here | Some d \<Rightarrow> d)
             (case opt_timeout opts of None \<Rightarrow> timeouts_default | Some t \<Rightarrow> t)
            = Returned out elapsed \<longrightarrow>
      executeCommand E here cmd args opts
        = Inr \<lparr>success = True, command = cmd @ '' '' @ join '' '' args, stdout = out, stderr = [],
               duration = elapsed, exitCode = 0\<rparr>)
   \<and> (which E cmd
        \<and> execSync E (cmd @ '' '' @ join '' '' args)
             (case opt_cwd opts of None \<Rightarrow> here | Some d \<Rightarrow> d)
             (case opt_timeout opts of None \<Rightarrow> timeouts_default | Some t \<Rightarrow> t)
            = Threw e_stdout e_stderr e_status e_message elapsed
        \<and> (e_stdout = None \<or> e_stdout = Some []) \<longrightarrow>
      executeCommand E here cmd args opts = Inl (ToolExecutionError e_message cmd))
   \<and> (which E cmd
        \<and> execSync E (cmd @ '' '' @ join '' '' args)
             (case opt_cwd opts of None \<Rightarrow> here | Some d \<Rightarrow> d)
             (case opt_timeout opts of None \<Rightarrow> timeouts_default | Some t \<Rightarrow> t)
            = Threw (Some out) e_stderr (Some status) e_message elapsed
        \<and> out \<noteq> [] \<and> status \<noteq> 0 \<longrightarrow>
      executeCommand E here cmd args opts
        = Inr \<lparr>success = True, command = cmd @ '' '' @ join '' '' args, stdout = out,
               stderr = (case e_stderr of None \<Rightarrow> [] | Some err \<Rightarrow> err),
               duration = elapsed, exitCode = status\<rparr>)
   \<and> (which E cmd
        \<and> execSync E (cmd @ '' '' @ join '' '' args)
             (case opt_cwd opts of None \<Rightarrow> here | Some d \<Rightarrow> d)
             (case opt_timeout opts of None \<Rightarrow> timeouts_default | Some t \<Rightarrow> t)
            = Threw (Some out) e_stderr e_status e_message elapsed
        \<and> out \<noteq> [] \<and> (e_status = None \<or> e_status = Some 0) \<longrightarrow>
      executeCommand E here cmd args opts
        = Inr \<lparr>success = True, command = cmd @ '' '' @ join '' '' args, stdout = out,
               stderr = (case e_stderr of None \<Rightarrow> [] | Some err \<Rightarrow> err),
               duration = elapsed, exitCode = 1\<rparr>)
   \<and> (executeCommand E here cmd args opts = Inl (ToolNotFoundError cmd (getInstallHint cmd))
        \<or> (\<exists>message. executeCommand E here cmd args opts = Inl (ToolExecutionError message cmd))
        \<or> (\<exists>result. executeCommand E here cmd args opts = Inr result))"
  by (auto simp: executeCommand_def isToolInstalled_def Let_def
           split: exec_outcome.splits option.splits)

text \<open>On the sample machine \<^verbatim>\<open>solhint\<close> exits with status 2 and output: a result with exit
  code 2; \<^verbatim>\<open>slither\<close> is not installed: the not-found error with its hint.  Where \<^verbatim>\<open>solhint\<close>
  is cut short by the timeout after it printed a line, the result has the exit code 1.\<close>

theorem executeCommand_outcomes_witness:
  "executeCommand sampleEnv ''.'' ''solhint'' [''V.sol''] \<lparr>opt_cwd = None, opt_timeout = Some 30000\<rparr>
     = Inr \<lparr>success = True, command = ''solhint V.sol'', stdout = ''1 problem'', stderr = [],
            duration = 7, exitCode = 2\<rparr>
   \<and> executeCommand sampleEnv ''.'' ''slither'' [''V.sol''] \<lparr>opt_cwd = None, opt_timeout = None\<rparr>
     = Inl (ToolNotFoundError ''slither'' ''pip install slither-analyzer'')
   \<and> executeCommand
        (sampleEnv\<lparr>execSync := (\<lambda>full cwd timeout.
                       Threw (Some ''1 problem'') (Some ''killed'') None ''spawnSync ETIMEDOUT'' 30000)\<rparr>)
        ''.'' ''solhint'' [''V.sol''] \<lparr>opt_cwd = None, opt_timeout = Some 30000\<rparr>
     = Inr \<lparr>success = True, command = ''solhint V.sol'', stdout = ''1 problem'',
            stderr = ''killed'', duration = 30000, exitCode = 1\<rparr>"
proof -
  let ?slow = "sampleEnv\<lparr>execSync := (\<lambda>full cwd timeout.
                 Threw (Some ''1 problem'') (Some ''killed'') None ''spawnSync ETIMEDOUT'' 30000)\<rparr>"
  have h: "getInstallHint ''slither'' = ''pip install slither-analyzer''"
    by (simp add: getInstallHint_def HINTS_def)
  from executeCommand_outcomes [where E = sampleEnv and cmd = "''solhint''" and here = "''.''"
      and args = "[''V.sol'']" and opts = "\<lparr>opt_cwd = None, opt_timeout = Some 30000\<rparr>"
      and out = "''1 problem''" and e_stderr = None and status = 2
      and e_message = "''Command failed''" and elapsed = 7]
  have a: "executeCommand sampleEnv ''.'' ''solhint'' [''V.sol'']
             \<lparr>opt_cwd = None, opt_timeout = Some 30000\<rparr>
     = Inr \<lparr>success = True, command = ''solhint V.sol'', stdout = ''1 problem'', stderr = [],
            duration = 7, exitCode = 2\<rparr>"
    by (simp add: sampleEnv_def)
  from executeCommand_outcomes [where E = sampleEnv and cmd = "''slither''" and here = "''.''"
      and args = "[''V.sol'']" and opts = "\<lparr>opt_cwd = None, opt_timeout = None\<rparr>"] h
  have b: "executeCommand sampleEnv ''.'' ''slither'' [''V.sol''] \<lparr>opt_cwd = None, opt_timeout = None\<rparr>
     = Inl (ToolNotFoundError ''slither'' ''pip install slither-analyzer'')"
    by (simp add: sampleEnv_def)
  from executeCommand_outcomes [where E = ?slow and cmd = "''solhint''" and here = "''.''"
      and args = "[''V.sol'']" and opts = "\<lparr>opt_cwd = None, opt_timeout = Some 30000\<rparr>"
      and out = "''1 problem''" and e_stderr = "Some ''killed''" and e_status = None
      and e_message = "''spawnSync ETIMEDOUT''" and elapsed = 30000]
  have c: "executeCommand ?slow ''.'' ''solhint'' [''V.sol'']
             \<lparr>opt_cwd = None, opt_timeout = Some 30000\<rparr>
     = Inr \<lparr>success = True, command = ''solhint V.sol'', stdout = ''1 problem'',
            stderr = ''killed'', duration = 30000, exitCode = 1\<rparr>"
    by (simp add: sampleEnv_def)
  from a b c show ?thesis by (intro conjI)
qed

section \<open>The recommendation generator\<close>

lemma uniq_from_set: "set (uniq_from seen xs) = set xs - set seen"
  by (induction xs arbitrary: seen) auto

lemma uniq_from_distinct: "distinct (uniq_from seen xs)"
  by (induction xs arbitrary: seen) (auto simp: uniq_from_set)

lemma uniq_distinct: "distinct (uniq xs)"
  by (simp add: uniq_def uniq_from_distinct)

lemma uniq_set: "set (uniq xs) = set xs"
  by (simp add: uniq_def uniq_from_set)

lemma uniq_Nil_iff: "(uniq xs = []) = (xs = [])"
  using uniq_set [of xs] by (metis set_empty)

lemma uniq_single: "uniq [x] = [x]"
  by (simp add: uniq_def)

lemma push_if_empty_nonempty: "push_if (length xs = 0) x xs \<noteq> []"
  by (simp add: push_if_def)

lemma generateRecommendations_nonempty: "generateRecommendations ca kr sims \<noteq> []"
  unfolding generateRecommendations_def Let_def uniq_Nil_iff
  by (rule push_if_empty_nonempty)

lemma no_indicator_recommendations:
  "list_all (\<lambda>i. \<not> str_includes i ''reentrancy'' \<and> \<not> str_includes i ''tx.origin''
                  \<and> \<not> str_includes i ''delegatecall'') inds
   \<Longrightarrow> concat (map indicatorRecommendations inds) = []"
  by (induction inds) (auto simp: indicatorRecommendations_def)

lemma quiet_exploits: "quietExploits sims \<Longrightarrow> exploitRecommendations sims = []"
  by (simp add: quietExploits_def exploitRecommendations_def)

lemma quiet_swc: "quietSwc rs \<Longrightarrow> swcRecommendations rs = []"
  by (auto simp: quietSwc_def swcRecommendations_def Let_def)

text \<open>
  Claim C7.  For every contract analysis, knowledge results and similar exploits, the
  list of recommendations has no string twice and is not empty.  When no condition
  triggers (both guard signatures are present, no indicator mentions reentrancy,
  \<^verbatim>\<open>tx.origin\<close> or \<^verbatim>\<open>delegatecall\<close>, no similar exploit has a listed category or source, and
  no weakness-classification match has a listed severity or id), the list is the one
  fallback message.
\<close>

theorem recommendations_distinct_nonempty:
  "distinct (generateRecommendations ca kr sims)
   \<and> generateRecommendations ca kr sims \<noteq> []
   \<and> (hasReentrancyGuard (ca_security ca) \<and> hasAccessControl (ca_security ca)
       \<and> list_all (\<lambda>i. \<not> str_includes i ''reentrancy'' \<and> \<not> str_includes i ''tx.origin''
                       \<and> \<not> str_includes i ''delegatecall'') (indicators (ca_security ca))
       \<and> quietExploits sims \<and> quietSwc (swcOf kr)
       \<longrightarrow> generateRecommendations ca kr sims = [fallbackRecommendation])"
proof (intro conjI impI)
  show "distinct (generateRecommendations ca kr sims)"
    by (simp add: generateRecommendations_def Let_def uniq_distinct)
  show "generateRecommendations ca kr sims \<noteq> []"
    by (rule generateRecommendations_nonempty)
next
  assume h: "hasReentrancyGuard (ca_security ca) \<and> hasAccessControl (ca_security ca)
       \<and> list_all (\<lambda>i. \<not> str_includes i ''reentrancy'' \<and> \<not> str_includes i ''tx.origin''
                       \<and> \<not> str_includes i ''delegatecall'') (indicators (ca_security ca))
       \<and> quietExploits sims \<and> quietSwc (swcOf kr)"
  then show "generateRecommendations ca kr sims = [fallbackRecommendation]"
    by (simp add: generateRecommendations_def Let_def push_if_def no_indicator_recommendations
          quiet_exploits quiet_swc uniq_single)
qed

text \<open>A source text with both guard signatures and nothing else, no knowledge results and
  no similar exploits: the fallback message alone.\<close>

theorem recommendations_distinct_nonempty_witness:
  "generateRecommendations (contractAnalysisOf sampleInfo ''nonReentrant onlyOwner'') noKnowledge []
     = [fallbackRecommendation]"
proof -
  have "hasReentrancyGuard (ca_security (contractAnalysisOf sampleInfo ''nonReentrant onlyOwner''))
      \<and> hasAccessControl (ca_security (contractAnalysisOf sampleInfo ''nonReentrant onlyOwner''))
      \<and> list_all (\<lambda>i. \<not> str_includes i ''reentrancy'' \<and> \<not> str_includes i ''tx.origin''
                      \<and> \<not> str_includes i ''delegatecall'')
           (indicators (ca_security (contractAnalysisOf sampleInfo ''nonReentrant onlyOwner'')))
      \<and> quietExploits [] \<and> quietSwc (swcOf noKnowledge)"
    by code_simp
  with recommendations_distinct_nonempty
         [of "contractAnalysisOf sampleInfo ''nonReentrant onlyOwner''" noKnowledge "[]"]
  show ?thesis by blast
qed

section \<open>The multi-query aggregation\<close>

lemma mergeResults_unique:
  "mergeResults S acc rs =
     (rev (map qr_id (uniqueById_from S rs)) @ S, acc @ map formatResult (uniqueById_from S rs))"
  by (induction rs arbitrary: S acc) auto

lemma firstSeen_from_tagged:
  "firstSeen_from S (map (Pair c) rs) = map (Pair c) (uniqueById_from S rs)"
  by (induction rs arbitrary: S) auto

lemma firstSeen_from_cong:
  "set S = set S' \<Longrightarrow> firstSeen_from S xs = firstSeen_from S' xs"
proof (induction xs arbitrary: S S')
  case Nil
  then show ?case by simp
next
  case (Cons x xs)
  have a: "set (qr_id (snd x) # S) = set (qr_id (snd x) # S')" using Cons.prems by simp
  show ?case
    using Cons.IH [OF a] Cons.IH [OF Cons.prems] Cons.prems by simp
qed

lemma firstSeen_from_append:
  "firstSeen_from S (xs @ ys) =
     firstSeen_from S xs @ firstSeen_from (rev (rowIds (firstSeen_from S xs)) @ S) ys"
  by (induction xs arbitrary: S) (auto simp: rowIds_def)

lemma fr_id_formatResult: "fr_id (formatResult r) = qr_id r"
  by (simp add: formatResult_def)

lemma pick_append: "pick c (xs @ ys) = pick c xs @ pick c ys"
  by (simp add: pick_def)

lemma pick_tagged: "pick c (map (Pair d) rs) = (if c = d then map formatResult rs else [])"
  by (induction rs) (auto simp: pick_def)

lemma rowIds_tagged: "rowIds (map (Pair c) rs) = map qr_id rs"
  by (simp add: rowIds_def comp_def)

lemma mergeQuery_firstSeen:
  "mergeQuery m r =
     \<lparr>allSwcResults = allSwcResults m @ pick InSwc (firstSeen_from (allIds m) (rowsOf r)),
      allExploitResults = allExploitResults m @ pick InExploits (firstSeen_from (allIds m) (rowsOf r)),
      allAuditResults = allAuditResults m @ pick InAudit (firstSeen_from (allIds m) (rowsOf r))\<rparr>"
  by (simp add: mergeQuery_def Let_def mergeResults_unique rowsOf_def firstSeen_from_append
        firstSeen_from_tagged pick_append pick_tagged rowIds_tagged allIds_def)

lemma aggregateQueries_fold:
  "aggregateQueries E limit queries m =
     (case searchEach E limit queries of
        Inl e \<Rightarrow> Inl e
      | Inr rs \<Rightarrow> Inr (foldl mergeQuery m rs))"
  by (induction queries arbitrary: m) (auto split: sum.splits)

lemma firstSeen_from_ids: "set (rowIds (firstSeen_from S xs)) = set (rowIds xs) - set S"
  by (induction xs arbitrary: S) (auto simp: rowIds_def)

lemma firstSeen_from_subset: "set (firstSeen_from S xs) \<subseteq> set xs"
  by (induction xs arbitrary: S) auto

lemma firstSeen_from_distinct: "distinct (rowIds (firstSeen_from S xs))"
proof (induction xs arbitrary: S)
  case Nil
  then show ?case by (simp add: rowIds_def)
next
  case (Cons x xs)
  have "qr_id (snd x) \<notin> set (rowIds (firstSeen_from (qr_id (snd x) # S) xs))"
    by (simp add: firstSeen_from_ids)
  with Cons.IH show ?case by (simp add: rowIds_def)
qed

lemma ids_pick: "map fr_id (pick c xs) = rowIds (filter (\<lambda>x. fst x = c) xs)"
  by (simp add: pick_def rowIds_def fr_id_formatResult comp_def)

lemma ids_picks_union:
  "set (map fr_id (pick InSwc xs)) \<union> set (map fr_id (pick InExploits xs))
     \<union> set (map fr_id (pick InAudit xs)) = set (rowIds xs)"
proof (induction xs)
  case Nil
  then show ?case by (simp add: pick_def rowIds_def)
next
  case (Cons x xs)
  obtain c r where x: "x = (c, r)" by (cases x)
  from Cons.IH show ?case
    unfolding x by (cases c) (auto simp: pick_def rowIds_def fr_id_formatResult)
qed

lemma allIds_mergeQuery:
  "set (allIds (mergeQuery m r))
     = set (rev (rowIds (firstSeen_from (allIds m) (rowsOf r))) @ allIds m)"
proof -
  have "set (allIds (mergeQuery m r))
          = set (allIds m)
            \<union> (set (map fr_id (pick InSwc (firstSeen_from (allIds m) (rowsOf r))))
               \<union> set (map fr_id (pick InExploits (firstSeen_from (allIds m) (rowsOf r))))
               \<union> set (map fr_id (pick InAudit (firstSeen_from (allIds m) (rowsOf r)))))"
    unfolding mergeQuery_firstSeen [of m r] by (simp add: allIds_def) blast
  then show ?thesis unfolding ids_picks_union by auto
qed

lemma fold_mergeQuery_firstSeen:
  "foldl mergeQuery m rs =
     \<lparr>allSwcResults = allSwcResults m
         @ pick InSwc (firstSeen_from (allIds m) (concat (map rowsOf rs))),
      allExploitResults = allExploitResults m
         @ pick InExploits (firstSeen_from (allIds m) (concat (map rowsOf rs))),
      allAuditResults = allAuditResults m
         @ pick InAudit (firstSeen_from (allIds m) (concat (map rowsOf rs)))\<rparr>"
proof (induction rs arbitrary: m)
  case Nil
  then show ?case by (simp add: pick_def)
next
  case (Cons r rs)
  have c: "firstSeen_from (allIds (mergeQuery m r)) (concat (map rowsOf rs))
             = firstSeen_from (rev (rowIds (firstSeen_from (allIds m) (rowsOf r))) @ allIds m)
                 (concat (map rowsOf rs))"
    by (rule firstSeen_from_cong) (rule allIds_mergeQuery)
  show ?case
    unfolding foldl_Cons Cons.IH [of "mergeQuery m r"] c
    by (simp add: mergeQuery_firstSeen [of m r] firstSeen_from_append pick_append)
qed

lemma mergeAll_firstSeen:
  "foldl mergeQuery noneMerged rs =
     \<lparr>allSwcResults = pick InSwc (firstSeen (concat (map rowsOf rs))),
      allExploitResults = pick InExploits (firstSeen (concat (map rowsOf rs))),
      allAuditResults = pick InAudit (firstSeen (concat (map rowsOf rs)))\<rparr>"
  unfolding fold_mergeQuery_firstSeen [of noneMerged rs]
  by (simp add: noneMerged_def allIds_def firstSeen_def)



lemma firstSeen_from_first:
  "x \<in> set (firstSeen_from S (concat (map rowsOf rs)))
   \<Longrightarrow> qr_id (snd x) \<notin> set S
       \<and> (\<exists>i<length rs. x \<in> set (rowsOf (rs ! i))
             \<and> (\<forall>j<i. qr_id (snd x) \<notin> set (rowIds (rowsOf (rs ! j)))))"
proof (induction rs arbitrary: S)
  case Nil
  then show ?case by simp
next
  case (Cons r rs)
  let ?S' = "rev (rowIds (firstSeen_from S (rowsOf r))) @ S"
  from Cons.prems have "x \<in> set (firstSeen_from S (rowsOf r))
      \<or> x \<in> set (firstSeen_from ?S' (concat (map rowsOf rs)))"
    by (simp add: firstSeen_from_append)
  then show ?case
  proof
    assume a: "x \<in> set (firstSeen_from S (rowsOf r))"
    then have "qr_id (snd x) \<in> set (rowIds (firstSeen_from S (rowsOf r)))"
      by (auto simp: rowIds_def)
    then have "qr_id (snd x) \<notin> set S" by (simp add: firstSeen_from_ids)
    moreover have "x \<in> set (rowsOf r)" using a firstSeen_from_subset by blast
    ultimately show ?thesis by (intro conjI exI [of _ 0]) auto
  next
    assume a: "x \<in> set (firstSeen_from ?S' (concat (map rowsOf rs)))"
    from Cons.IH [OF a] obtain i where
      n: "qr_id (snd x) \<notin> set ?S'" and i: "i < length rs" "x \<in> set (rowsOf (rs ! i))"
      and f: "\<forall>j<i. qr_id (snd x) \<notin> set (rowIds (rowsOf (rs ! j)))"
      by blast
    have s: "set ?S' = set S \<union> set (rowIds (rowsOf r))"
      by (auto simp: firstSeen_from_ids)
    from n s have n1: "qr_id (snd x) \<notin> set S" and n2: "qr_id (snd x) \<notin> set (rowIds (rowsOf r))"
      by auto
    have "\<forall>j<Suc i. qr_id (snd x) \<notin> set (rowIds (rowsOf ((r # rs) ! j)))"
      using f n2 by (auto simp: nth_Cons split: nat.splits)
    with i n1 show ?thesis
      by (intro conjI exI [of _ "Suc i"]) auto
  qed
qed

lemma pick_firstReturned:
  assumes "e \<in> set (pick c (firstSeen (concat (map rowsOf rs))))"
  shows "firstReturned rs c e"
proof -
  from assms obtain x where x: "x \<in> set (firstSeen (concat (map rowsOf rs)))"
      "fst x = c" "e = formatResult (snd x)"
    by (auto simp: pick_def)
  from firstSeen_from_first [of x "[]" rs] x(1) obtain i where
      i: "i < length rs" "x \<in> set (rowsOf (rs ! i))"
      and f: "\<forall>j<i. qr_id (snd x) \<notin> set (rowIds (rowsOf (rs ! j)))"
    unfolding firstSeen_def by blast
  have "list_ex (\<lambda>x. fst x = c \<and> e = formatResult (snd x)) (rowsOf (rs ! i))"
    using i(2) x(2,3) by (auto simp: list_ex_iff)
  moreover have "list_all (\<lambda>j. fr_id e \<notin> set (rowIds (rowsOf (rs ! j)))) [0..<i]"
    using f x(3) by (simp add: list_all_iff fr_id_formatResult)
  ultimately show ?thesis
    unfolding firstReturned_def list_ex_iff using i(1) by auto
qed

lemma distinct_rowIds_filter: "distinct (rowIds xs) \<Longrightarrow> distinct (rowIds (filter P xs))"
  unfolding rowIds_def by (rule distinct_map_filter)

lemma pick_distinct: "distinct (map fr_id (pick c (firstSeen xs)))"
  unfolding ids_pick firstSeen_def
  by (rule distinct_rowIds_filter) (rule firstSeen_from_distinct)

lemma picks_disjoint:
  assumes "distinct (rowIds xs)" "c \<noteq> d"
  shows "set (map fr_id (pick c xs)) \<inter> set (map fr_id (pick d xs)) = {}"
  using assms
proof (induction xs)
  case Nil
  then show ?case by (simp add: pick_def)
next
  case (Cons x xs)
  have "set (map fr_id (pick c xs)) \<subseteq> set (rowIds xs)" "set (map fr_id (pick d xs)) \<subseteq> set (rowIds xs)"
    unfolding ids_pick rowIds_def by auto
  with Cons show ?case
    by (auto simp: pick_def rowIds_def fr_id_formatResult)
qed

lemma picks_all_distinct:
  "distinct (map fr_id (pick InSwc (firstSeen xs) @ pick InExploits (firstSeen xs)
                        @ pick InAudit (firstSeen xs)))"
proof -
  have d: "distinct (rowIds (firstSeen xs))"
    unfolding firstSeen_def by (rule firstSeen_from_distinct)
  show ?thesis
    using pick_distinct [of InSwc xs] pick_distinct [of InExploits xs] pick_distinct [of InAudit xs]
      picks_disjoint [OF d, of InSwc InExploits] picks_disjoint [OF d, of InSwc InAudit]
      picks_disjoint [OF d, of InExploits InAudit]
    by (simp add: Int_Un_distrib Int_Un_distrib2) 
qed

lemma sample_queries:
  "queriesOf sampleAnalysis True
     = [''tx.origin phishing critical vulnerability'',
        ''CRITICAL: tx.origin usage - vulnerable to phishing''] "
  by code_simp

lemma toIntegerOrInfinity_nonneg: "0 \<le> stop \<Longrightarrow> toIntegerOrInfinity stop = \<lfloor>stop\<rfloor>"
  by (simp add: toIntegerOrInfinity_def)

lemma slice0_nonneg: "0 \<le> stop \<Longrightarrow> slice0 xs stop = take (nat \<lfloor>stop\<rfloor>) xs"
proof -
  assume a: "0 \<le> stop"
  then have f: "0 \<le> \<lfloor>stop\<rfloor>" by simp
  have "take (nat (min \<lfloor>stop\<rfloor> (int (length xs)))) xs = take (nat \<lfloor>stop\<rfloor>) xs"
  proof (cases "\<lfloor>stop\<rfloor> \<le> int (length xs)")
    case True
    then show ?thesis by (simp add: min_def)
  next
    case False
    then have "length xs \<le> nat \<lfloor>stop\<rfloor>" by linarith
    with False show ?thesis by (simp add: min_def)
  qed
  with a f show ?thesis
    by (simp add: slice0_def Let_def toIntegerOrInfinity_nonneg)
qed

lemma slice0_negative:
  "stop \<le> - 1 \<Longrightarrow> slice0 xs stop = take (length xs - nat (- \<lceil>stop\<rceil>)) xs"
proof -
  assume a: "stop \<le> - 1"
  then have "\<lceil>stop\<rceil> \<le> - 1" by (simp add: ceiling_le_iff)
  then have n: "\<lceil>stop\<rceil> < 0" by linarith
  have t: "toIntegerOrInfinity stop = \<lceil>stop\<rceil>" using a by (simp add: toIntegerOrInfinity_def)
  have "nat (max (int (length xs) + \<lceil>stop\<rceil>) 0) = length xs - nat (- \<lceil>stop\<rceil>)"
    using n by (simp add: max_def) linarith
  with n show ?thesis by (simp add: slice0_def Let_def t)
qed

lemma slice0_fraction: "- 1 < stop \<Longrightarrow> stop < 0 \<Longrightarrow> slice0 xs stop = []"
proof -
  assume a: "- 1 < stop" "stop < 0"
  then have "\<lceil>stop\<rceil> = 0" by (simp add: ceiling_eq_iff)
  with a(2) show ?thesis by (simp add: slice0_def Let_def toIntegerOrInfinity_def)
qed

lemma slice0_prefix: "\<exists>n. slice0 xs stop = take n xs"
  by (simp add: slice0_def Let_def) blast

lemma slice0_length: "0 \<le> stop \<Longrightarrow> of_nat (length (slice0 xs stop)) \<le> stop"
proof -
  assume a: "0 \<le> stop"
  then have f: "0 \<le> \<lfloor>stop\<rfloor>" by simp
  have "length (slice0 xs stop) \<le> nat \<lfloor>stop\<rfloor>"
    by (simp add: slice0_nonneg [OF a])
  then have "(of_nat (length (slice0 xs stop)) :: rat) \<le> of_nat (nat \<lfloor>stop\<rfloor>)"
    by (simp only: of_nat_le_iff)
  also have "\<dots> = of_int \<lfloor>stop\<rfloor>" using f by simp
  also have "\<dots> \<le> stop" by simp
  finally show ?thesis .
qed

lemma aggregateKnowledge_firstSeen:
  assumes "searchEach E (perQuery kLimit (length (queriesOf ca comprehensive)))
             (queriesOf ca comprehensive) = Inr rs"
  shows "aggregateKnowledge E ca kLimit comprehensive =
           Inr \<lparr>kr_swc = Some (slice0 (pick InSwc (firstSeen (concat (map rowsOf rs)))) kLimit),
                kr_exploits = Some (slice0 (pick InExploits (firstSeen (concat (map rowsOf rs)))) kLimit),
                kr_auditFindings = Some (slice0 (pick InAudit (firstSeen (concat (map rowsOf rs)))) kLimit)\<rparr>"
  using assms
  by (simp add: aggregateKnowledge_def Let_def aggregateQueries_fold mergeAll_firstSeen
        knowledgeResultsOf_def)

lemma slice0_firstReturned:
  "list_all (firstReturned rs c) (slice0 (pick c (firstSeen (concat (map rowsOf rs)))) stop)"
proof -
  obtain n where "slice0 (pick c (firstSeen (concat (map rowsOf rs)))) stop
                    = take n (pick c (firstSeen (concat (map rowsOf rs))))"
    using slice0_prefix by blast
  then show ?thesis
    unfolding list_all_iff using pick_firstReturned in_set_takeD by fastforce
qed

lemma slice0_pick_distinct:
  "distinct (map fr_id (slice0 (pick c (firstSeen xs)) stop))"
proof -
  obtain n where "slice0 (pick c (firstSeen xs)) stop = take n (pick c (firstSeen xs))"
    using slice0_prefix by blast
  then show ?thesis
    using pick_distinct [of c xs] by (simp add: take_map [symmetric] distinct_take)
qed

text \<open>
  Claim C5, as amended.  When every search of a run succeeds, with answers \<open>rs\<close>, each
  collection's output is the formatted rows of that collection among the first-seen rows
  of the answers, cut by \<^verbatim>\<open>slice(0, knowledgeLimit)\<close>.  So no collection's output has an id
  twice and every entry was produced by the first query that returned its id (whatever
  the distances of later rows with that id).  When the limit is not negative, no output
  is longer than the limit.  A limit of \<open>- 1\<close> or less takes entries off the end of the
  merged list instead, as many as the limit cut to an integer says, and a limit between
  \<open>- 1\<close> and 0 leaves no entry.
\<close>

theorem aggregation_first_wins:
  assumes "searchEach E (perQuery kLimit (length (queriesOf ca comprehensive)))
             (queriesOf ca comprehensive) = Inr rs"
  shows "\<exists>swc exploits audit.
           aggregateKnowledge E ca kLimit comprehensive
             = Inr \<lparr>kr_swc = Some swc, kr_exploits = Some exploits, kr_auditFindings = Some audit\<rparr>
         \<and> swc = slice0 (pick InSwc (firstSeen (concat (map rowsOf rs)))) kLimit
         \<and> exploits = slice0 (pick InExploits (firstSeen (concat (map rowsOf rs)))) kLimit
         \<and> audit = slice0 (pick InAudit (firstSeen (concat (map rowsOf rs)))) kLimit
         \<and> distinct (map fr_id swc) \<and> distinct (map fr_id exploits) \<and> distinct (map fr_id audit)
         \<and> list_all (firstReturned rs InSwc) swc
         \<and> list_all (firstReturned rs InExploits) exploits
         \<and> list_all (firstReturned rs InAudit) audit
         \<and> (0 \<le> kLimit \<longrightarrow>
               of_nat (length swc) \<le> kLimit \<and> of_nat (length exploits) \<le> kLimit
               \<and> of_nat (length audit) \<le> kLimit)
         \<and> (kLimit \<le> - 1 \<longrightarrow>
               (\<forall>c. slice0 (pick c (firstSeen (concat (map rowsOf rs)))) kLimit
                      = take (length (pick c (firstSeen (concat (map rowsOf rs))))
                                - nat (- \<lceil>kLimit\<rceil>))
                          (pick c (firstSeen (concat (map rowsOf rs))))))
         \<and> (- 1 < kLimit \<and> kLimit < 0 \<longrightarrow> swc = [] \<and> exploits = [] \<and> audit = [])"
proof -
  let ?A = "\<lambda>c. pick c (firstSeen (concat (map rowsOf rs)))"
  have 1: "aggregateKnowledge E ca kLimit comprehensive
             = Inr \<lparr>kr_swc = Some (slice0 (?A InSwc) kLimit),
                    kr_exploits = Some (slice0 (?A InExploits) kLimit),
                    kr_auditFindings = Some (slice0 (?A InAudit) kLimit)\<rparr>"
    by (rule aggregateKnowledge_firstSeen [OF assms])
  have 2: "distinct (map fr_id (slice0 (?A c) kLimit))" for c
    by (rule slice0_pick_distinct)
  have 3: "list_all (firstReturned rs c) (slice0 (?A c) kLimit)" for c
    by (rule slice0_firstReturned)
  have 4: "0 \<le> kLimit \<longrightarrow> of_nat (length (slice0 (?A c) kLimit)) \<le> kLimit" for c
    using slice0_length by blast
  have 5: "kLimit \<le> - 1 \<longrightarrow>
             (\<forall>c. slice0 (?A c) kLimit = take (length (?A c) - nat (- \<lceil>kLimit\<rceil>)) (?A c))"
    using slice0_negative by blast
  have 6: "- 1 < kLimit \<and> kLimit < 0 \<longrightarrow>
             slice0 (?A InSwc) kLimit = [] \<and> slice0 (?A InExploits) kLimit = []
             \<and> slice0 (?A InAudit) kLimit = []"
    using slice0_fraction by blast
  show ?thesis
    using 1 2 3 4 5 6 by (intro exI conjI refl) simp_all
qed

text \<open>The sample run: both queries return \<^verbatim>\<open>SWC-107\<close> for \<^verbatim>\<open>swc\<close>, the second at distance
  1/4; the entry kept is the one of the first query, at distance 1/2, with the relevance
  50%.  And a run with the limit \<open>- 1\<close> against the database of three audit findings: the
  last of the three is taken off.\<close>

theorem aggregation_first_wins_witness:
  "aggregateKnowledge sampleKbEnv sampleAnalysis 4 True
     = Inr \<lparr>kr_swc = Some [formatResult (sampleSwcRow (1 / 2))],
            kr_exploits = Some [formatResult (sampleExploitRows ! 1)],
            kr_auditFindings = Some []\<rparr>
   \<and> fr_relevance (formatResult (sampleSwcRow (1 / 2))) = ''50%''
   \<and> aggregateKnowledge sampleAuditEnv sampleAnalysis (- 1) True
     = Inr \<lparr>kr_swc = Some [], kr_exploits = Some [],
            kr_auditFindings = Some (take 2 (map formatResult sampleAuditRows))\<rparr>"
proof -
  let ?rs = "[\<lparr>sr_exploits = sampleExploitRows, sr_auditFindings = [],
                sr_swc = [sampleSwcRow (1 / 2)]\<rparr>,
              \<lparr>sr_exploits = sampleExploitRows, sr_auditFindings = [],
                sr_swc = [sampleSwcRow (1 / 4)]\<rparr>]"
  let ?as = "[\<lparr>sr_exploits = [], sr_auditFindings = sampleAuditRows, sr_swc = []\<rparr>,
              \<lparr>sr_exploits = [], sr_auditFindings = sampleAuditRows, sr_swc = []\<rparr>]"
  have s: "searchEach sampleKbEnv (perQuery 4 (length (queriesOf sampleAnalysis True)))
             (queriesOf sampleAnalysis True) = Inr ?rs"
    by code_simp
  have p: "slice0 (pick InSwc (firstSeen (concat (map rowsOf ?rs)))) 4
             = [formatResult (sampleSwcRow (1 / 2))]"
     "slice0 (pick InExploits (firstSeen (concat (map rowsOf ?rs)))) 4
             = [formatResult (sampleExploitRows ! 1)]"
     "slice0 (pick InAudit (firstSeen (concat (map rowsOf ?rs)))) 4 = []"
    by code_simp+
  have r: "fr_relevance (formatResult (sampleSwcRow (1 / 2))) = ''50%''" by code_simp
  have t: "searchEach sampleAuditEnv (perQuery (- 1) (length (queriesOf sampleAnalysis True)))
             (queriesOf sampleAnalysis True) = Inr ?as"
    by code_simp
  have q: "pick InSwc (firstSeen (concat (map rowsOf ?as))) = []"
     "pick InExploits (firstSeen (concat (map rowsOf ?as))) = []"
     "pick InAudit (firstSeen (concat (map rowsOf ?as))) = map formatResult sampleAuditRows"
    by code_simp+
  have l: "length (map formatResult sampleAuditRows) - nat (- \<lceil>- 1 :: rat\<rceil>) = 2"
    by code_simp
  from aggregation_first_wins [OF s] p
  have 1: "aggregateKnowledge sampleKbEnv sampleAnalysis 4 True
     = Inr \<lparr>kr_swc = Some [formatResult (sampleSwcRow (1 / 2))],
            kr_exploits = Some [formatResult (sampleExploitRows ! 1)],
            kr_auditFindings = Some []\<rparr>"
    by auto
  from aggregation_first_wins [OF t] obtain swc exploits audit where
    a: "aggregateKnowledge sampleAuditEnv sampleAnalysis (- 1) True
          = Inr \<lparr>kr_swc = Some swc, kr_exploits = Some exploits, kr_auditFindings = Some audit\<rparr>"
       "swc = slice0 (pick InSwc (firstSeen (concat (map rowsOf ?as)))) (- 1)"
       "exploits = slice0 (pick InExploits (firstSeen (concat (map rowsOf ?as)))) (- 1)"
       "audit = slice0 (pick InAudit (firstSeen (concat (map rowsOf ?as)))) (- 1)"
    and n: "(- 1 :: rat) \<le> - 1 \<longrightarrow>
       (\<forall>c. slice0 (pick c (firstSeen (concat (map rowsOf ?as)))) (- 1)
              = take (length (pick c (firstSeen (concat (map rowsOf ?as)))) - nat (- \<lceil>- 1 :: rat\<rceil>))
                  (pick c (firstSeen (concat (map rowsOf ?as)))))"
    by blast
  from n have n': "\<And>c. slice0 (pick c (firstSeen (concat (map rowsOf ?as)))) (- 1)
              = take (length (pick c (firstSeen (concat (map rowsOf ?as)))) - nat (- \<lceil>- 1 :: rat\<rceil>))
                  (pick c (firstSeen (concat (map rowsOf ?as))))"
    by simp
  have "swc = take (length (pick InSwc (firstSeen (concat (map rowsOf ?as)))) - nat (- \<lceil>- 1 :: rat\<rceil>))
                (pick InSwc (firstSeen (concat (map rowsOf ?as))))"
    unfolding a(2) by (rule n')
  then have e1: "swc = []" by (simp only: q take_Nil)
  have "exploits = take (length (pick InExploits (firstSeen (concat (map rowsOf ?as))))
                          - nat (- \<lceil>- 1 :: rat\<rceil>))
                     (pick InExploits (firstSeen (concat (map rowsOf ?as))))"
    unfolding a(3) by (rule n')
  then have e2: "exploits = []" by (simp only: q take_Nil)
  have "audit = take (length (pick InAudit (firstSeen (concat (map rowsOf ?as))))
                       - nat (- \<lceil>- 1 :: rat\<rceil>))
                  (pick InAudit (firstSeen (concat (map rowsOf ?as))))"
    unfolding a(4) by (rule n')
  then have e3: "audit = take 2 (map formatResult sampleAuditRows)" by (simp only: q l)
  from e1 e2 e3 a(1) have 2: "aggregateKnowledge sampleAuditEnv sampleAnalysis (- 1) True
     = Inr \<lparr>kr_swc = Some [], kr_exploits = Some [],
            kr_auditFindings = Some (take 2 (map formatResult sampleAuditRows))\<rparr>"
    by simp
  from 1 r 2 show ?thesis by (intro conjI)
qed

text \<open>
  Claim C5, as stated, fails for a negative limit.  On a machine whose vector database
  answers every query to \<^verbatim>\<open>audit_findings\<close> with the same three rows, a run with the limit
  \<open>- 1\<close> returns two of them: more entries than the limit.
\<close>

theorem aggregation_limit_counterexample:
  "aggregateKnowledge sampleAuditEnv sampleAnalysis (- 1) True
     = Inr \<lparr>kr_swc = Some [], kr_exploits = Some [],
            kr_auditFindings = Some [formatResult (sampleAuditRows ! 0),
                                     formatResult (sampleAuditRows ! 1)]\<rparr>
   \<and> \<not> (of_nat (length [formatResult (sampleAuditRows ! 0), formatResult (sampleAuditRows ! 1)])
          \<le> (- 1 :: rat))"
  by code_simp

subsection \<open>One set of ids for the three collections\<close>

lemma firstSeen_ids: "set (rowIds (firstSeen xs)) = set (rowIds xs)"
  by (simp add: firstSeen_def firstSeen_from_ids)

text \<open>
  Claim C2, as amended.  A match is discarded as a duplicate when its id is already in the
  merged set of any of the three collections: the loop keeps one set of ids for all of
  them, and within a query it merges the rows for \<^verbatim>\<open>swc\<close> first, then \<^verbatim>\<open>exploits\<close>, then
  \<^verbatim>\<open>auditFindings\<close>.  So every id the queries returned is retained exactly once, in the
  collection of the first row that has it, and no id is in two merged lists.
\<close>

theorem aggregation_ids_shared:
  assumes "aggregateQueries E limit queries noneMerged = Inr m"
  shows "distinct (map fr_id (allSwcResults m @ allExploitResults m @ allAuditResults m))
         \<and> (\<exists>rs. searchEach E limit queries = Inr rs
                \<and> allSwcResults m = pick InSwc (firstSeen (concat (map rowsOf rs)))
                \<and> allExploitResults m = pick InExploits (firstSeen (concat (map rowsOf rs)))
                \<and> allAuditResults m = pick InAudit (firstSeen (concat (map rowsOf rs)))
                \<and> set (map fr_id (allSwcResults m @ allExploitResults m @ allAuditResults m))
                    = set (rowIds (concat (map rowsOf rs))))"
proof -
  from assms obtain rs where rs: "searchEach E limit queries = Inr rs"
      and m: "m = foldl mergeQuery noneMerged rs"
    by (auto simp: aggregateQueries_fold split: sum.splits)
  have u: "set (map fr_id (allSwcResults m @ allExploitResults m @ allAuditResults m))
             = set (rowIds (concat (map rowsOf rs)))"
    unfolding m mergeAll_firstSeen
    using ids_picks_union [of "firstSeen (concat (map rowsOf rs))"]
    by (simp add: firstSeen_ids Un_assoc)
  show ?thesis
    using rs u picks_all_distinct [of "concat (map rowsOf rs)"]
    unfolding m mergeAll_firstSeen by auto
qed

text \<open>The sample run: the id \<^verbatim>\<open>SWC-107\<close> is kept once, among the weakness classifications.\<close>

theorem aggregation_ids_shared_witness:
  "distinct (map fr_id ([formatResult (sampleSwcRow (1 / 2))] @ [formatResult (sampleExploitRows ! 1)] @ []))"
proof -
  have a: "aggregateQueries sampleKbEnv 2 (queriesOf sampleAnalysis True) noneMerged
        = Inr \<lparr>allSwcResults = [formatResult (sampleSwcRow (1 / 2))],
               allExploitResults = [formatResult (sampleExploitRows ! 1)],
               allAuditResults = []\<rparr>"
    by code_simp
  from aggregation_ids_shared [OF a] show ?thesis by simp
qed

text \<open>
  Claim C2, as stated, fails.  In the sample run the first query returns a row with the
  id \<^verbatim>\<open>SWC-107\<close> for \<^verbatim>\<open>swc\<close> and another for \<^verbatim>\<open>exploits\<close>; the merged output has the id
  among the weakness classifications and not among the exploits.
\<close>

theorem aggregation_per_collection_counterexample:
  "searchAll sampleKbEnv ''tx.origin phishing critical vulnerability'' 2
     = Inr \<lparr>sr_exploits = sampleExploitRows, sr_auditFindings = [],
            sr_swc = [sampleSwcRow (1 / 2)]\<rparr>
   \<and> qr_id (sampleSwcRow (1 / 2)) = ''SWC-107''
   \<and> qr_id (sampleExploitRows ! 0) = ''SWC-107''
   \<and> aggregateKnowledge sampleKbEnv sampleAnalysis 4 True
       = Inr \<lparr>kr_swc = Some [formatResult (sampleSwcRow (1 / 2))],
              kr_exploits = Some [formatResult (sampleExploitRows ! 1)],
              kr_auditFindings = Some []\<rparr>
   \<and> ''SWC-107'' \<in> set (map fr_id [formatResult (sampleSwcRow (1 / 2))])
   \<and> ''SWC-107'' \<notin> set (map fr_id [formatResult (sampleExploitRows ! 1)])"
  by code_simp

section \<open>The similarity search\<close>

lemma uniqueById_from_ids: "set (map qr_id (uniqueById_from S rs)) = set (map qr_id rs) - set S"
  by (induction rs arbitrary: S) auto

lemma uniqueById_from_distinct: "distinct (map qr_id (uniqueById_from S rs))"
proof (induction rs arbitrary: S)
  case Nil
  then show ?case by simp
next
  case (Cons r rs)
  have "qr_id r \<notin> set (map qr_id (uniqueById_from (qr_id r # S) rs))"
    by (simp only: uniqueById_from_ids) simp
  with Cons.IH show ?case by simp
qed

lemma uniqueById_from_first:
  "x \<in> set (uniqueById_from S rs) \<Longrightarrow> find (\<lambda>y. qr_id y = qr_id x) rs = Some x \<and> qr_id x \<notin> set S"
proof (induction rs arbitrary: S)
  case Nil
  then show ?case by simp
next
  case (Cons r rs)
  show ?case
  proof (cases "qr_id r \<in> set S")
    case True
    with Cons.prems have "x \<in> set (uniqueById_from S rs)" by simp
    from Cons.IH [OF this] True show ?thesis by auto
  next
    case False
    with Cons.prems consider "x = r" | "x \<in> set (uniqueById_from (qr_id r # S) rs)" by auto
    then show ?thesis
    proof cases
      case 1
      with False show ?thesis by simp
    next
      case 2
      from Cons.IH [OF 2] show ?thesis by auto
    qed
  qed
qed

lemma se_id_similarExploitOf: "se_id (similarExploitOf r) = qr_id r"
  by (simp add: similarExploitOf_def)

lemma projected_distinct:
  "distinct (map se_id (map similarExploitOf (slice0 (uniqueById rs) stop)))"
proof -
  obtain n where n: "slice0 (uniqueById rs) stop = take n (uniqueById rs)"
    using slice0_prefix by blast
  have "map se_id (map similarExploitOf (take n (uniqueById rs))) = take n (map qr_id (uniqueById rs))"
    by (simp add: se_id_similarExploitOf comp_def take_map)
  then show ?thesis
    unfolding n using uniqueById_from_distinct [of "[]" rs]
    by (simp add: uniqueById_def distinct_take del: take_map)
qed

lemma findSimilar_shape:
  "findSimilar E content ca kLimit comprehensive = Inr sims
   \<Longrightarrow> \<exists>rs. sims = map similarExploitOf (slice0 (uniqueById rs) (kLimit * 2))"
  by (auto simp: findSimilar_def split: sum.splits if_splits)

lemma probeIndicators_answers:
  "probeIndicators E inds = Inr rows
   \<Longrightarrow> \<exists>answers. map (\<lambda>indicator. findSimilarExploits E indicator 3) inds = map Inr answers
                 \<and> rows = concat answers"
proof (induction inds arbitrary: rows)
  case Nil
  then show ?case by simp
next
  case (Cons indicator rest)
  from Cons.prems obtain similar others where
    s: "findSimilarExploits E indicator 3 = Inr similar"
    and o: "probeIndicators E rest = Inr others"
    and r: "rows = similar @ others"
    by (auto split: sum.splits)
  from Cons.IH [OF o] obtain answers where
    a: "map (\<lambda>indicator. findSimilarExploits E indicator 3) rest = map Inr answers"
       "others = concat answers"
    by blast
  have "map (\<lambda>indicator. findSimilarExploits E indicator 3) (indicator # rest)
          = map Inr (similar # answers)"
    using s a(1) by simp
  moreover have "rows = concat (similar # answers)" using r a(2) by simp
  ultimately show ?case by blast
qed

text \<open>
  Claim C6, as amended.  In comprehensive mode (the default) the similarity search issues
  probe (a), the source text with capacity \<open>limit * 2\<close>, and probe (b), one query for each
  of the first three indicators with capacity 3; it keeps the first occurrence of every
  id, cuts the list by \<^verbatim>\<open>slice(0, limit * 2)\<close> and projects each entry.  For a limit that
  is not negative that is the search the specification words.  Outside comprehensive
  mode it issues the first probe alone, with capacity \<open>limit\<close>, and no indicator probe.
  In both modes the ids of the result are distinct and, when the limit is not negative,
  the result has at most \<open>limit * 2\<close> entries; what the deduplication keeps of a list is,
  for each id, the first row that has it.  The projection of a row takes over its id,
  gives its similarity as the percentage of one minus its distance, reads name, protocol,
  category, loss, date, source and attack vector from its metadata, and cuts its
  document to 500 characters.
\<close>

theorem similar_exploits_modes:
  "findSimilar E content ca kLimit True
     = (case findSimilarExploits E content (kLimit * 2) of
          Inl e \<Rightarrow> Inl e
        | Inr fromSource \<Rightarrow>
            (case probeIndicators E (take 3 (indicators (ca_security ca))) of
               Inl e \<Rightarrow> Inl e
             | Inr fromIndicators \<Rightarrow>
                 Inr (map similarExploitOf
                        (slice0 (uniqueById (fromSource @ fromIndicators)) (kLimit * 2)))))
   \<and> (0 \<le> kLimit \<longrightarrow>
        findSimilar E content ca kLimit True
          = findSimilar_spec E content (indicators (ca_security ca)) kLimit)
   \<and> findSimilar E content ca kLimit False
     = (case findSimilarExploits E content kLimit of
          Inl e \<Rightarrow> Inl e
        | Inr fromSource \<Rightarrow>
            Inr (map similarExploitOf (slice0 (uniqueById fromSource) (kLimit * 2))))
   \<and> (\<forall>inds rows. probeIndicators E inds = Inr rows \<longrightarrow>
         (\<exists>answers. map (\<lambda>indicator. findSimilarExploits E indicator 3) inds = map Inr answers
                    \<and> rows = concat answers))
   \<and> (\<forall>sims. findSimilar E content ca kLimit comprehensive = Inr sims
         \<longrightarrow> distinct (map se_id sims)
             \<and> (0 \<le> kLimit \<longrightarrow> of_nat (length sims) \<le> kLimit * 2))
   \<and> (\<forall>x \<in> set (uniqueById rs). find (\<lambda>y. qr_id y = qr_id x) rs = Some x)
   \<and> similarExploitOf r
       = \<lparr>se_id = qr_id r,
          se_similarity =
            integralToString (Math_round (fl (fl (1 - fl (qr_distance r)) * 100))) @ ''%'',
          se_name = mget (qr_metadata r) ''name'',
          se_protocol = mget (qr_metadata r) ''protocol'',
          se_category = mget (qr_metadata r) ''category'',
          se_loss = mget (qr_metadata r) ''loss'',
          se_date = mget (qr_metadata r) ''date'',
          se_source = mget (qr_metadata r) ''source'',
          se_description = take 500 (qr_document r),
          se_attackVector = mget (qr_metadata r) ''attackVector''\<rparr>"
proof (intro conjI allI impI ballI)
  show t: "findSimilar E content ca kLimit True
     = (case findSimilarExploits E content (kLimit * 2) of
          Inl e \<Rightarrow> Inl e
        | Inr fromSource \<Rightarrow>
            (case probeIndicators E (take 3 (indicators (ca_security ca))) of
               Inl e \<Rightarrow> Inl e
             | Inr fromIndicators \<Rightarrow>
                 Inr (map similarExploitOf
                        (slice0 (uniqueById (fromSource @ fromIndicators)) (kLimit * 2)))))"
    by (cases "indicators (ca_security ca)")
       (auto simp: findSimilar_def split: sum.splits)
  show "findSimilar E content ca kLimit True
          = findSimilar_spec E content (indicators (ca_security ca)) kLimit"
    if "0 \<le> kLimit"
  proof -
    from that have "0 \<le> kLimit * 2" by simp
    then have c: "\<And>xs :: QueryResult list. slice0 xs (kLimit * 2) = capAt (kLimit * 2) xs"
      by (simp add: slice0_nonneg capAt_def)
    show ?thesis
      unfolding t findSimilar_spec_def by (simp add: c split: sum.splits)
  qed
  show "findSimilar E content ca kLimit False
     = (case findSimilarExploits E content kLimit of
          Inl e \<Rightarrow> Inl e
        | Inr fromSource \<Rightarrow>
            Inr (map similarExploitOf (slice0 (uniqueById fromSource) (kLimit * 2))))"
    by (auto simp: findSimilar_def split: sum.splits)
  show "similarExploitOf r
       = \<lparr>se_id = qr_id r,
          se_similarity =
            integralToString (Math_round (fl (fl (1 - fl (qr_distance r)) * 100))) @ ''%'',
          se_name = mget (qr_metadata r) ''name'',
          se_protocol = mget (qr_metadata r) ''protocol'',
          se_category = mget (qr_metadata r) ''category'',
          se_loss = mget (qr_metadata r) ''loss'',
          se_date = mget (qr_metadata r) ''date'',
          se_source = mget (qr_metadata r) ''source'',
          se_description = take 500 (qr_document r),
          se_attackVector = mget (qr_metadata r) ''attackVector''\<rparr>"
    by (simp add: similarExploitOf_def percent_def substring0_def)
next
  fix inds rows assume "probeIndicators E inds = Inr rows"
  then show "\<exists>answers. map (\<lambda>indicator. findSimilarExploits E indicator 3) inds = map Inr answers
                    \<and> rows = concat answers"
    by (rule probeIndicators_answers)
next
  fix sims assume a: "findSimilar E content ca kLimit comprehensive = Inr sims"
  from findSimilar_shape [OF a] obtain rs' where
    s: "sims = map similarExploitOf (slice0 (uniqueById rs') (kLimit * 2))" by blast
  show "distinct (map se_id sims)" unfolding s by (rule projected_distinct)
  show "of_nat (length sims) \<le> kLimit * 2" if "0 \<le> kLimit"
  proof -
    from that have "0 \<le> kLimit * 2" by simp
    from slice0_length [OF this] show ?thesis unfolding s by simp
  qed
next
  fix x assume "x \<in> set (uniqueById rs)"
  then show "find (\<lambda>y. qr_id y = qr_id x) rs = Some x"
    unfolding uniqueById_def using uniqueById_from_first by blast
qed

text \<open>The sample machine in comprehensive mode with limit 1: both exploits, once each; the
  first, at distance 3/10, has the similarity 70%.\<close>

theorem similar_exploits_modes_witness:
  "findSimilar sampleKbEnv ''tx.origin'' sampleAnalysis 1 True
     = Inr [similarExploitOf (sampleExploitRows ! 0), similarExploitOf (sampleExploitRows ! 1)]
   \<and> se_similarity (similarExploitOf (sampleExploitRows ! 0)) = ''70%''
   \<and> se_source (similarExploitOf (sampleExploitRows ! 1)) = Some (JStr ''DeFiHackLabs'')"
proof -
  have a: "findSimilar_spec sampleKbEnv ''tx.origin'' (indicators (ca_security sampleAnalysis)) 1
     = Inr [similarExploitOf (sampleExploitRows ! 0), similarExploitOf (sampleExploitRows ! 1)]"
    by code_simp
  have b: "se_similarity (similarExploitOf (sampleExploitRows ! 0)) = ''70%''"
    "se_source (similarExploitOf (sampleExploitRows ! 1)) = Some (JStr ''DeFiHackLabs'')"
    by code_simp+
  have "findSimilar sampleKbEnv ''tx.origin'' sampleAnalysis 1 True
          = findSimilar_spec sampleKbEnv ''tx.origin'' (indicators (ca_security sampleAnalysis)) 1"
    using similar_exploits_modes [of sampleKbEnv "''tx.origin''" sampleAnalysis 1,
        THEN conjunct2, THEN conjunct1]
    by simp
  from this a have "findSimilar sampleKbEnv ''tx.origin'' sampleAnalysis 1 True
     = Inr [similarExploitOf (sampleExploitRows ! 0), similarExploitOf (sampleExploitRows ! 1)]"
    by (rule trans)
  with b show ?thesis by (intro conjI)
qed

text \<open>
  Claim C6, as stated, fails outside comprehensive mode.  With limit 1 the search of the
  code asks for one row and probes no indicator; the search of the specification asks
  for two rows and finds a second exploit.  It fails for a negative limit as well: in
  comprehensive mode with limit \<open>- 1 / 2\<close> the cut is \<^verbatim>\<open>slice(0, - 1)\<close>, which leaves one
  entry, more than \<open>limit * 2\<close>.
\<close>

theorem similar_exploits_unconditional_counterexample:
  "findSimilar sampleKbEnv ''tx.origin'' sampleAnalysis 1 False
     = Inr [similarExploitOf (sampleExploitRows ! 0)]
   \<and> findSimilar_spec sampleKbEnv ''tx.origin'' (indicators (ca_security sampleAnalysis)) 1
     = Inr [similarExploitOf (sampleExploitRows ! 0), similarExploitOf (sampleExploitRows ! 1)]
   \<and> findSimilar sampleKbEnv ''tx.origin'' sampleAnalysis 1 False
     \<noteq> findSimilar_spec sampleKbEnv ''tx.origin'' (indicators (ca_security sampleAnalysis)) 1
   \<and> findSimilar sampleKbEnv ''tx.origin'' sampleAnalysis (- 1 / 2) True
     = Inr [similarExploitOf (sampleExploitRows ! 0)]
   \<and> \<not> (of_nat (length [similarExploitOf (sampleExploitRows ! 0)]) \<le> (- 1 / 2 :: rat) * 2)"
  by code_simp

section \<open>The handler and a failing knowledge backend\<close>

lemma queriesOf_nonempty: "\<exists>q qs. queriesOf ca comprehensive = q # qs"
  by (simp add: queriesOf_def Let_def)

text \<open>The error \<open>firstRejection\<close> picks is one of those it is given, and none of them came
  earlier.\<close>

lemma firstRejection_earliest:
  "\<exists>t'. (t', firstRejection (t, e) xs) \<in> set ((t, e) # xs)
        \<and> (\<forall>x \<in> set ((t, e) # xs). t' \<le> fst x)"
proof (induction xs arbitrary: t e)
  case Nil
  then show ?case by simp
next
  case (Cons x xs)
  obtain t1 e1 where x: "x = (t1, e1)" by (cases x)
  show ?case
  proof (cases "t1 < t")
    case True
    from Cons.IH [of t1 e1] obtain t' where
      t': "(t', firstRejection (t1, e1) xs) \<in> set ((t1, e1) # xs)"
          "\<forall>y \<in> set ((t1, e1) # xs). t' \<le> fst y"
      by blast
    from t'(2) have "t' \<le> t1" by simp
    with True have "t' \<le> t" by simp
    with t' True show ?thesis unfolding x by auto
  next
    case False
    from Cons.IH [of t e] obtain t' where
      t': "(t', firstRejection (t, e) xs) \<in> set ((t, e) # xs)"
          "\<forall>y \<in> set ((t, e) # xs). t' \<le> fst y"
      by blast
    from t'(2) have "t' \<le> t" by simp
    with False have "t' \<le> t1" by simp
    with t' False show ?thesis unfolding x by auto
  qed
qed

text \<open>The failures of the three queries of a search, with their times.\<close>

lemma rejection_iff: "(t, e) \<in> set (rejection t' r) \<longleftrightarrow> t = t' \<and> r = Inl e"
  by (cases r) (auto simp: rejection_def)

lemma searchAll_rejects:
  assumes "searchAll E query limit = Inl e"
  shows "\<exists>c \<in> set [EXPLOITS, AUDIT_FINDINGS, SWC].
           vectorDbQuery E c query limit None = Inl e
           \<and> (\<forall>c' \<in> set [EXPLOITS, AUDIT_FINDINGS, SWC].
                 isl (vectorDbQuery E c' query limit None)
                 \<longrightarrow> answerTime E c query limit None \<le> answerTime E c' query limit None)"
proof -
  let ?q = "\<lambda>c. vectorDbQuery E c query limit None"
  let ?t = "\<lambda>c. answerTime E c query limit None"
  let ?all = "rejection (?t EXPLOITS) (?q EXPLOITS) @ rejection (?t AUDIT_FINDINGS) (?q AUDIT_FINDINGS)
              @ rejection (?t SWC) (?q SWC)"
  have m: "\<And>t e'. (t, e') \<in> set ?all \<longleftrightarrow>
             (\<exists>c \<in> set [EXPLOITS, AUDIT_FINDINGS, SWC]. t = ?t c \<and> ?q c = Inl e')"
    by (auto simp: rejection_iff)
  have "\<exists>t'. (t', e) \<in> set ?all \<and> (\<forall>x \<in> set ?all. t' \<le> fst x)"
  proof (cases "?q EXPLOITS")
    case (Inl e1)
    with assms have e: "e = firstRejection (?t EXPLOITS, e1)
                          (rejection (?t AUDIT_FINDINGS) (?q AUDIT_FINDINGS) @ rejection (?t SWC) (?q SWC))"
      by (simp add: searchAll_def Let_def findSimilarExploits_def findSimilarAuditFindings_def
            querySWC_def)
    have "?all = (?t EXPLOITS, e1) # (rejection (?t AUDIT_FINDINGS) (?q AUDIT_FINDINGS)
                                     @ rejection (?t SWC) (?q SWC))"
      using Inl by (simp add: rejection_def)
    then show ?thesis
      unfolding e using firstRejection_earliest by presburger
  next
    case (Inr exploits)
    show ?thesis
    proof (cases "?q AUDIT_FINDINGS")
      case (Inl e2)
      with assms Inr have e: "e = firstRejection (?t AUDIT_FINDINGS, e2) (rejection (?t SWC) (?q SWC))"
        by (simp add: searchAll_def Let_def findSimilarExploits_def findSimilarAuditFindings_def
              querySWC_def)
      have "?all = (?t AUDIT_FINDINGS, e2) # rejection (?t SWC) (?q SWC)"
        using Inl Inr by (simp add: rejection_def)
      then show ?thesis
        unfolding e using firstRejection_earliest by presburger
    next
      case ok: (Inr auditFindings)
      with assms Inr have "?q SWC = Inl e"
        by (simp add: searchAll_def Let_def findSimilarExploits_def findSimilarAuditFindings_def
              querySWC_def split: sum.splits)
      with Inr ok show ?thesis by (simp add: rejection_def)
    qed
  qed
  then obtain t' where t': "(t', e) \<in> set ?all" "\<forall>x \<in> set ?all. t' \<le> fst x" by blast
  from t'(1) obtain c where c: "c \<in> set [EXPLOITS, AUDIT_FINDINGS, SWC]" "t' = ?t c" "?q c = Inl e"
    unfolding m by blast
  have "?t c \<le> ?t c'" if "c' \<in> set [EXPLOITS, AUDIT_FINDINGS, SWC]" "isl (?q c')" for c'
  proof -
    from that(2) obtain e' where "?q c' = Inl e'" by (cases "?q c'") auto
    with that(1) have "(?t c', e') \<in> set ?all" unfolding m by blast
    with t'(2) c(2) show ?thesis by fastforce
  qed
  with c show ?thesis by blast
qed

lemma searchAll_fails:
  assumes "\<forall>collection text n wh. isl (vectorDbQuery E collection text n wh)"
  shows "\<exists>e. searchAll E query limit = Inl e"
proof -
  from assms have "isl (vectorDbQuery E EXPLOITS query limit None)" by blast
  then obtain e where "vectorDbQuery E EXPLOITS query limit None = Inl e"
    by (cases "vectorDbQuery E EXPLOITS query limit None") auto
  then show ?thesis by (simp add: searchAll_def Let_def findSimilarExploits_def)
qed

lemma aggregateKnowledge_first_search:
  assumes "searchAll E (hd (queriesOf ca comprehensive))
             (perQuery kLimit (length (queriesOf ca comprehensive))) = Inl e"
  shows "aggregateKnowledge E ca kLimit comprehensive = Inl e"
proof -
  obtain q qs where q: "queriesOf ca comprehensive = q # qs"
    using queriesOf_nonempty by blast
  with assms show ?thesis by (simp add: aggregateKnowledge_def Let_def)
qed

text \<open>
  Claim C1, as amended.  When the file can be read and every query to the knowledge
  backend raises: with \<^verbatim>\<open>includeKnowledgeBase\<close> enabled, the handler returns the error
  response \<^verbatim>\<open>Analysis failed\<close> and no report.  The response carries the text of an error
  the backend raised: that of the query which failed first among the three queries of
  the first search (the first query text, for the number of rows the handler asks of
  every search); nothing between that search and the handler's \<^verbatim>\<open>catch\<close> intercepts it.
  With \<^verbatim>\<open>includeKnowledgeBase\<close> disabled, the backend is not asked and the handler
  returns a report whose risk assessment and recommendations come from the contract
  analysis alone and whose knowledge-base section is null.
\<close>

theorem knowledge_failure_is_fatal:
  assumes "\<forall>collection text n wh. isl (vectorDbQuery E collection text n wh)"
    and "readFile E (opt_path opts) = Inr content"
    and "getFileInfo E (opt_path opts) = Inr info"
  shows "(includeKnowledgeBase opts \<longrightarrow>
            (\<exists>e. \<exists>c \<in> set [EXPLOITS, AUDIT_FINDINGS, SWC].
                vectorDbQuery E c
                    (hd (queriesOf (contractAnalysisOf info content) (comprehensiveMode opts)))
                    (perQuery (knowledgeLimit opts)
                       (length (queriesOf (contractAnalysisOf info content) (comprehensiveMode opts))))
                    None = Inl e
                \<and> (\<forall>c' \<in> set [EXPLOITS, AUDIT_FINDINGS, SWC].
                      answerTime E c
                          (hd (queriesOf (contractAnalysisOf info content) (comprehensiveMode opts)))
                          (perQuery (knowledgeLimit opts)
                             (length (queriesOf (contractAnalysisOf info content)
                                        (comprehensiveMode opts))))
                          None
                      \<le> answerTime E c'
                          (hd (queriesOf (contractAnalysisOf info content) (comprehensiveMode opts)))
                          (perQuery (knowledgeLimit opts)
                             (length (queriesOf (contractAnalysisOf info content)
                                        (comprehensiveMode opts))))
                          None)
                \<and> comprehensive_analysis E here opts
                    = ErrorResponse ''Analysis failed'' [(''error'', error_string e)]))
         \<and> (\<not> includeKnowledgeBase opts \<longrightarrow>
              (\<exists>report. comprehensive_analysis E here opts = JsonResponse report
                 \<and> rep_riskAssessment report
                     = assessRisk (contractAnalysisOf info content) noKnowledge []
                 \<and> rep_recommendations report
                     = generateRecommendations (contractAnalysisOf info content) noKnowledge []
                 \<and> rep_knowledgeBase report = None))"
proof -
  let ?ca = "contractAnalysisOf info content"
  let ?q = "hd (queriesOf ?ca (comprehensiveMode opts))"
  let ?n = "perQuery (knowledgeLimit opts) (length (queriesOf ?ca (comprehensiveMode opts)))"
  have ex: "fs_exists E (opt_path opts)"
    using assms(2) by (auto simp: readFile_def split: if_splits)
  show ?thesis
  proof (intro conjI impI)
    assume k: "includeKnowledgeBase opts"
    obtain e where e: "searchAll E ?q ?n = Inl e"
      using searchAll_fails [OF assms(1)] by blast
    from searchAll_rejects [OF e] obtain c where
      c: "c \<in> set [EXPLOITS, AUDIT_FINDINGS, SWC]" "vectorDbQuery E c ?q ?n None = Inl e"
         "\<forall>c' \<in> set [EXPLOITS, AUDIT_FINDINGS, SWC].
             isl (vectorDbQuery E c' ?q ?n None)
             \<longrightarrow> answerTime E c ?q ?n None \<le> answerTime E c' ?q ?n None"
      by blast
    from c(3) assms(1) have t: "\<forall>c' \<in> set [EXPLOITS, AUDIT_FINDINGS, SWC].
             answerTime E c ?q ?n None \<le> answerTime E c' ?q ?n None"
      by blast
    have "aggregateKnowledge E ?ca (knowledgeLimit opts) (comprehensiveMode opts) = Inl e"
      using aggregateKnowledge_first_search [OF e] .
    then have "analysisBody E here opts = Inl e"
      using k assms(2,3) by (simp add: analysisBody_def knowledgeStage_def Let_def)
    then have "comprehensive_analysis E here opts
                 = ErrorResponse ''Analysis failed'' [(''error'', error_string e)]"
      using ex by (simp add: comprehensive_analysis_def)
    with c(1,2) t
    show "\<exists>e. \<exists>c \<in> set [EXPLOITS, AUDIT_FINDINGS, SWC].
            vectorDbQuery E c ?q ?n None = Inl e
            \<and> (\<forall>c' \<in> set [EXPLOITS, AUDIT_FINDINGS, SWC].
                  answerTime E c ?q ?n None \<le> answerTime E c' ?q ?n None)
            \<and> comprehensive_analysis E here opts
                = ErrorResponse ''Analysis failed'' [(''error'', error_string e)]"
      by blast
  next
    assume k: "\<not> includeKnowledgeBase opts"
    have "analysisBody E here opts
            = Inr (assemble opts (contractAnalysisOf info content)
                     (runExternalTools E here (opt_path opts) (useExternalTools opts)
                        (comprehensiveMode opts)) noKnowledge [])"
      using k assms(2,3) by (simp add: analysisBody_def knowledgeStage_def Let_def)
    then show "\<exists>report. comprehensive_analysis E here opts = JsonResponse report
                 \<and> rep_riskAssessment report
                     = assessRisk (contractAnalysisOf info content) noKnowledge []
                 \<and> rep_recommendations report
                     = generateRecommendations (contractAnalysisOf info content) noKnowledge []
                 \<and> rep_knowledgeBase report = None"
      using ex k by (simp add: comprehensive_analysis_def assemble_def Let_def)
  qed
qed

lemma sample_readFile: "readFile sampleEnv ''V.sol'' = Inr ''tx.origin''"
  by (simp add: readFile_def fs_exists_def sampleEnv_def maxFileSize_def)

lemma sample_getFileInfo:
  "getFileInfo sampleEnv ''V.sol''
     = Inr \<lparr>fi_path = ''V.sol'', fi_name = ''V.sol'', fi_size = 9, fi_lines = 1\<rparr>"
  by (simp add: getFileInfo_def sample_readFile split_lines_count_def newline_def)
     (simp add: sampleEnv_def)

lemma sample_backend_down:
  "\<forall>collection text n wh. isl (vectorDbQuery sampleEnv collection text n wh)"
  by (simp add: sampleEnv_def)

lemma sample_search_fails:
  "searchAll sampleEnv query limit = Inl (ExternalError ''Error: no collection audit_findings'')"
  by (simp add: searchAll_def Let_def findSimilarExploits_def findSimilarAuditFindings_def
        querySWC_def rejection_def sampleEnv_def EXPLOITS_def AUDIT_FINDINGS_def SWC_def)

lemma sample_aggregate_fails:
  "aggregateKnowledge sampleEnv ca kLimit comprehensive
     = Inl (ExternalError ''Error: no collection audit_findings'')"
  by (rule aggregateKnowledge_first_search) (rule sample_search_fails)

lemma sample_analysis_fails:
  "comprehensive_analysis sampleEnv ''.'' sampleOptions
     = ErrorResponse ''Analysis failed'' [(''error'', ''Error: no collection audit_findings'')]"
proof -
  have "fs_exists sampleEnv ''V.sol''" by (simp add: fs_exists_def sampleEnv_def)
  then show ?thesis
    by (simp add: comprehensive_analysis_def analysisBody_def knowledgeStage_def Let_def
          sampleOptions_def sample_readFile sample_getFileInfo sample_aggregate_fails)
qed

text \<open>The sample machine, where every query fails and the one to \<^verbatim>\<open>audit_findings\<close> fails
  first: the response carries that query's error.\<close>

theorem knowledge_failure_is_fatal_witness:
  "comprehensive_analysis sampleEnv ''.'' sampleOptions
     = ErrorResponse ''Analysis failed'' [(''error'', ''Error: no collection audit_findings'')]
   \<and> (\<exists>report. comprehensive_analysis sampleEnv ''.'' (sampleOptions\<lparr>includeKnowledgeBase := False\<rparr>)
                   = JsonResponse report
        \<and> rep_knowledgeBase report = None)"
proof -
  have p: "opt_path sampleOptions = ''V.sol''"
      "opt_path (sampleOptions\<lparr>includeKnowledgeBase := False\<rparr>) = ''V.sol''"
    by (simp_all add: sampleOptions_def)
  have i: "includeKnowledgeBase sampleOptions"
     "\<not> includeKnowledgeBase (sampleOptions\<lparr>includeKnowledgeBase := False\<rparr>)"
    by (simp_all add: sampleOptions_def)
  from knowledge_failure_is_fatal [of sampleEnv sampleOptions "''tx.origin''" _ "''.''"]
       knowledge_failure_is_fatal [of sampleEnv "sampleOptions\<lparr>includeKnowledgeBase := False\<rparr>"
           "''tx.origin''" _ "''.''"]
       sample_backend_down sample_readFile sample_getFileInfo p i sample_analysis_fails
  show ?thesis by metis
qed

text \<open>
  Claim C1, as stated, fails.  On the sample machine every query to the knowledge backend
  raises and \<^verbatim>\<open>includeKnowledgeBase\<close> is enabled; the handler returns an error response,
  not a report.
\<close>

theorem graceful_degradation_counterexample:
  "(\<forall>collection text n wh. isl (vectorDbQuery sampleEnv collection text n wh))
   \<and> includeKnowledgeBase sampleOptions
   \<and> comprehensive_analysis sampleEnv ''.'' sampleOptions
       = ErrorResponse ''Analysis failed'' [(''error'', ''Error: no collection audit_findings'')]"
proof -
  have "includeKnowledgeBase sampleOptions" by (simp add: sampleOptions_def)
  then show ?thesis using sample_backend_down sample_analysis_fails by blast
qed

section \<open>The function extractor\<close>



lemma list_all_mono': "list_all P xs \<Longrightarrow> (\<And>x. P x \<Longrightarrow> Q x) \<Longrightarrow> list_all Q xs"
  by (auto simp: list_all_iff)






declare rx_ms.simps [simp del]


























end
